theory Spec2Isabelle
  imports Main
begin

section \<open>Strings\<close>

text \<open>
  A JavaScript string is modelled as a \<^typ>\<open>string\<close> whose characters are the code
  units below 256.  In that range the white space of \<^verbatim>\<open>String.prototype.trim\<close> and of
  the regular expression class \<^verbatim>\<open>\s\<close> is TAB, LF, VT, FF, CR, SPACE and NBSP.
\<close>

definition isWhiteSpace :: "char \<Rightarrow> bool" where
  "isWhiteSpace c =
     (c = CHR 0x09 \<or> c = CHR 0x0A \<or> c = CHR 0x0B \<or> c = CHR 0x0C \<or> c = CHR 0x0D
      \<or> c = CHR '' '' \<or> c = CHR 0xA0)"

definition trim :: "string \<Rightarrow> string" where
  "trim s = rev (dropWhile isWhiteSpace (rev (dropWhile isWhiteSpace s)))"

text \<open>\<^verbatim>\<open>toLowerCase\<close> on code units below 256: A-Z and the Latin-1 capitals.\<close>

definition toLowerChar :: "char \<Rightarrow> char" where
  "toLowerChar c =
     (let n = (of_char c :: nat)
      in if (65 \<le> n \<and> n \<le> 90) \<or> (192 \<le> n \<and> n \<le> 222 \<and> n \<noteq> 215)
         then char_of (n + 32) else c)"

definition toLowerCase :: "string \<Rightarrow> string" where
  "toLowerCase s = map toLowerChar s"

definition startsWith :: "string \<Rightarrow> string \<Rightarrow> bool" where
  "startsWith s p = (take (length p) s = p)"

text \<open>\<^verbatim>\<open>s.includes(p)\<close>: \<open>p\<close> occurs somewhere in \<open>s\<close>.\<close>

fun includesStr :: "string \<Rightarrow> string \<Rightarrow> bool" where
  "includesStr [] p = (p = [])"
| "includesStr (c # cs) p = (startsWith (c # cs) p \<or> includesStr cs p)"

text \<open>
  \<^verbatim>\<open>s.split(/\s+/)\<close>: the pieces between maximal runs of white space.  The first
  argument collects the current piece, reversed.
\<close>

function splitWs :: "string \<Rightarrow> string \<Rightarrow> string list" where
  "splitWs acc [] = [rev acc]"
| "splitWs acc (c # cs) =
     (if isWhiteSpace c then rev acc # splitWs [] (dropWhile isWhiteSpace cs)
      else splitWs (c # acc) cs)"
  by pat_completeness auto
termination
  by (relation "measure (\<lambda>(acc, s). length s)")
     (auto simp: le_imp_less_Suc length_dropWhile_le)

text \<open>\<^verbatim>\<open>a || b\<close> on strings: the empty string is falsy.\<close>

definition orElse :: "string \<Rightarrow> string \<Rightarrow> string" where
  "orElse a b = (if a = [] then b else a)"

text \<open>\<^verbatim>\<open>a || b\<close> where \<open>a\<close> and \<open>b\<close> may be undefined.\<close>

definition orElseOpt :: "string option \<Rightarrow> string option \<Rightarrow> string option" where
  "orElseOpt a b = (case a of None \<Rightarrow> b | Some x \<Rightarrow> if x = [] then b else Some x)"

text \<open>\<^verbatim>\<open>a || 'literal'\<close> where \<open>a\<close> may be undefined.\<close>

definition orDefault :: "string option \<Rightarrow> string \<Rightarrow> string" where
  "orDefault a d = (case a of None \<Rightarrow> d | Some x \<Rightarrow> if x = [] then d else x)"

section \<open>Data model\<close>

record GmailEmail =
  email_id :: string
  threadId :: "string option"
  messageId :: string
  subject :: string
  sender :: string
  snippet :: string
  body :: string
  internalDate :: "string option"

section \<open>Reply envelope\<close>

text \<open>
  \<^verbatim>\<open>value.match(/<([^>]+)>/)\<close>: the leftmost \<open><\<close> that is followed by at least one
  character other than \<open>>\<close> and then by \<open>>\<close>; the result is the captured group.
\<close>

fun angleMatch :: "string \<Rightarrow> string option" where
  "angleMatch [] = None"
| "angleMatch (c # cs) =
     (if c = CHR ''<'' then
        (let g = takeWhile (\<lambda>x. x \<noteq> CHR ''>'') cs
         in if g \<noteq> [] \<and> length g < length cs then Some g else angleMatch cs)
      else angleMatch cs)"

text \<open>The test of \<^verbatim>\<open>find\<close> in \<^verbatim>\<open>extractEmailAddress\<close>.\<close>

definition addressLike :: "string \<Rightarrow> bool" where
  "addressLike part = (CHR ''@'' \<in> set part \<and> CHR ''.'' \<in> set part)"

definition extractEmailAddress :: "string \<Rightarrow> string" where
  "extractEmailAddress v =
     (if v = [] then []
      else case angleMatch v of
        Some g \<Rightarrow> trim g
      | None \<Rightarrow>
          (let trimmed = trim v
           in if CHR '' '' \<in> set trimmed then
                (case find addressLike (splitWs [] trimmed) of
                   Some emailLike \<Rightarrow>
                     filter (\<lambda>c. c \<noteq> CHR ''<'' \<and> c \<noteq> CHR ''>'' \<and> c \<noteq> CHR '','') emailLike
                 | None \<Rightarrow> [])
              else trimmed))"

text \<open>The subject computed by \<^verbatim>\<open>getReplyEnvelope\<close> from \<^verbatim>\<open>email.subject\<close>.\<close>

definition replySubject :: "string \<Rightarrow> string" where
  "replySubject s =
     (let subjectBase = orElse (trim s) ''(no subject)''
      in if startsWith (toLowerCase subjectBase) ''re:'' then subjectBase
         else ''Re: '' @ subjectBase)"

text \<open>A thrown \<^verbatim>\<open>Error\<close> is \<open>Inl\<close> of its message; the result is (recipient, subject).\<close>

definition getReplyEnvelope :: "GmailEmail \<Rightarrow> string + (string \<times> string)" where
  "getReplyEnvelope email =
     (let recipient = extractEmailAddress (sender email)
      in if recipient = [] then Inl ''Unable to parse sender email address.''
         else Inr (recipient, replySubject (subject email)))"

section \<open>Application state and provider responses\<close>

record GmailStatus =
  gs_loading :: bool
  gs_connected :: bool
  gs_error :: string
  gs_profile :: "string option"
  gs_lastSync :: "string option"

record EmailAnalysis =
  summary :: string
  category :: string
  priority :: int
  action_items :: "string list"
  deadlines :: "string list"
  key_points :: "string list"

record AnalysisFlags =
  as_loading :: bool
  as_error :: "string option"

record ReplyDraftState =
  rd_loading :: bool
  rd_content :: string
  rd_error :: "string option"
  rd_draftId :: "string option"
  rd_savedAt :: "string option"
  rd_saving :: "bool option"
  rd_sending :: "bool option"
  rd_dirty :: "bool option"
  rd_notice :: "string option"

text \<open>
  The JSON of one message as \<^verbatim>\<open>normalizeMessage\<close> reads it.  \<open>raw_body\<close> stands for
  the result of \<^verbatim>\<open>extractBodyFromPayload(message.payload)\<close>; MIME and base64 decoding
  are not modelled.
\<close>

record RawMessage =
  raw_id :: string
  raw_threadId :: "string option"
  raw_snippet :: string
  raw_internalDate :: "string option"
  raw_headers :: "(string \<times> string) list"
  raw_body :: string

text \<open>
  The outcome of one \<^verbatim>\<open>fetch\<close> with its \<^verbatim>\<open>json()\<close>: the promise rejects with an
  \<^verbatim>\<open>Error\<close> message, or the response is not ok (status, and \<^verbatim>\<open>error.message\<close> of its
  body when there is one), or it is ok with a decoded body.
\<close>

datatype 'a fetched = Rejected string | NotOk nat "string option" | Ok 'a

text \<open>
  What the mail provider answers during one run of \<^verbatim>\<open>fetchEmails\<close>: the list of
  message ids, and the message for each id.
\<close>

record cycle =
  listing :: "string list fetched"
  details :: "string \<Rightarrow> RawMessage option fetched"

text \<open>
  The token endpoint: \<^verbatim>\<open>refreshAccessToken\<close> reads the JSON body whatever the status,
  so a reply is a thrown error or a body with its \<^verbatim>\<open>access_token\<close> and
  \<^verbatim>\<open>error_description\<close>.
\<close>

datatype token_reply = TokenThrows string | TokenJson "string option" "string option"

text \<open>
  Every network call the program makes is appended to a trace.  A draft or an outgoing
  message carries the RFC 822 text before its base64url encoding.
\<close>

datatype request =
    ListMessages string
  | GetMessage string string
  | TokenRefresh string
  | CreateDraft string string "string option"
  | UpdateDraft string string string "string option"
  | SendMessage string string "string option"
  | ChatCompletion string

text \<open>
  The React state of the component, \<^verbatim>\<open>localStorage\<close>, the configured key, the clock read
  by \<^verbatim>\<open>new Date()\<close>, the trace of network calls, the enrichment calls still awaiting
  their response, and the responses the providers will give to the next runs of
  \<^verbatim>\<open>fetchEmails\<close> and of \<^verbatim>\<open>refreshAccessToken\<close>.
\<close>

record world =
  googleToken :: string
  storage :: "string \<rightharpoonup> string"
  gmailStatus :: GmailStatus
  emails :: "GmailEmail list"
  selectedEmailId :: "string option"
  analyses :: "string \<rightharpoonup> EmailAnalysis"
  analysisState :: "string \<rightharpoonup> AnalysisFlags"
  replyDrafts :: "string \<rightharpoonup> ReplyDraftState"
  openAiKey :: string
  clock :: string
  network :: "request list"
  pendingEnrichments :: "string list"
  inbox :: "cycle list"
  tokenEndpoint :: "token_reply list"

definition setGmailStatus :: "(GmailStatus \<Rightarrow> GmailStatus) \<Rightarrow> world \<Rightarrow> world" where
  "setGmailStatus f w = w\<lparr>gmailStatus := f (gmailStatus w)\<rparr>"

section \<open>Error classification\<close>

definition isLineTerminator :: "char \<Rightarrow> bool" where
  "isLineTerminator c = (c = CHR 0x0A \<or> c = CHR 0x0D)"

text \<open>\<^verbatim>\<open>/invalid.*(credential|token|authentication)/\<close> on a lower-cased message.\<close>

fun invalidThen :: "string \<Rightarrow> bool" where
  "invalidThen [] = False"
| "invalidThen (c # cs) =
     ((startsWith (c # cs) ''invalid'' \<and>
       (let rest = takeWhile (\<lambda>x. \<not> isLineTerminator x) (drop 7 (c # cs))
        in includesStr rest ''credential'' \<or> includesStr rest ''token''
           \<or> includesStr rest ''authentication''))
      \<or> invalidThen cs)"

definition missingScopesMessage :: string where
  "missingScopesMessage =
     ''Missing permissions: Please reconnect Gmail and accept all requested permissions (compose, modify, and send).''"

text \<open>The message returned, and the state after the possible \<^verbatim>\<open>setGmailStatus\<close>.\<close>

definition interpretGmailError :: "string \<Rightarrow> world \<Rightarrow> string \<times> world" where
  "interpretGmailError message w =
     (if includesStr (toLowerCase message) ''insufficient authentication scopes'' then
        (missingScopesMessage,
         setGmailStatus (\<lambda>prev. prev\<lparr>gs_error := missingScopesMessage, gs_connected := False\<rparr>) w)
      else if invalidThen (toLowerCase message) then
        (''Authentication expired. Please reconnect to Gmail.'', w)
      else (message, w))"

section \<open>Sync cycle and credential recovery\<close>

definition headerValue :: "RawMessage \<Rightarrow> string \<Rightarrow> string" where
  "headerValue message name =
     (case find (\<lambda>header. fst header = name) (raw_headers message) of
        Some header \<Rightarrow> snd header
      | None \<Rightarrow> [])"

definition normalizeMessage :: "RawMessage option \<Rightarrow> GmailEmail option" where
  "normalizeMessage m =
     (case m of
        None \<Rightarrow> None
      | Some message \<Rightarrow>
          Some \<lparr>email_id = raw_id message,
                threadId = raw_threadId message,
                messageId = headerValue message ''Message-ID'',
                subject = orElse (headerValue message ''Subject'') ''(no subject)'',
                sender = orElse (headerValue message ''From'') ''Unknown sender'',
                snippet = raw_snippet message,
                body = raw_body message,
                internalDate = raw_internalDate message\<rparr>)"

text \<open>
  \<^verbatim>\<open>Promise.all\<close> over the detail fetches: the messages in the order of the ids, or the
  error of a fetch that failed (the first in list order; a response that is not ok throws
  the fixed message, whatever its status).
\<close>

fun promiseAll :: "RawMessage option fetched list \<Rightarrow> string + RawMessage option list" where
  "promiseAll [] = Inr []"
| "promiseAll (Rejected msg # rs) = Inl msg"
| "promiseAll (NotOk status m # rs) = Inl ''Unable to read full message.''"
| "promiseAll (Ok x # rs) =
     (case promiseAll rs of Inl msg \<Rightarrow> Inl msg | Inr xs \<Rightarrow> Inr (x # xs))"

text \<open>The \<^verbatim>\<open>catch\<close> block of \<^verbatim>\<open>fetchEmails\<close>.\<close>

definition fetchFailed :: "string \<Rightarrow> world \<Rightarrow> world" where
  "fetchFailed err w =
     (case interpretGmailError err w of
        (message, w1) \<Rightarrow>
          setGmailStatus (\<lambda>prev. prev\<lparr>gs_loading := False, gs_error := message\<rparr>) w1)"

text \<open>The snapshot published after the detail fetches succeeded.\<close>

definition publish :: "RawMessage option list \<Rightarrow> world \<Rightarrow> world" where
  "publish detailed w =
     (let normalized = List.map_filter normalizeMessage detailed
      in setGmailStatus
           (\<lambda>prev. prev\<lparr>gs_loading := False, gs_connected := True,
                         gs_lastSync := Some (clock w), gs_error := []\<rparr>)
           (w\<lparr>emails := normalized,
              selectedEmailId := (case normalized of [] \<Rightarrow> None | e # _ \<Rightarrow> Some (email_id e))\<rparr>))"

text \<open>The catch block of \<^verbatim>\<open>refreshAccessToken\<close>.\<close>

definition refreshFailed :: "world \<Rightarrow> world" where
  "refreshFailed w =
     setGmailStatus
       (\<lambda>prev. prev\<lparr>gs_connected := False, gs_loading := False,
                     gs_error := ''Session expired. Please reconnect to Gmail.'',
                     gs_lastSync := None\<rparr>)
       (w\<lparr>googleToken := [],
          storage := (storage w)(''gmail_access_token'' := None, ''gmail_refresh_token'' := None)\<rparr>)"

text \<open>
  \<^verbatim>\<open>fetchEmails\<close>, \<^verbatim>\<open>handle401Error\<close> and \<^verbatim>\<open>refreshAccessToken\<close> call one another.
  Each run of \<^verbatim>\<open>fetchEmails\<close> that reaches the network takes the next \<open>cycle\<close> of
  \<open>inbox\<close>, each run of \<^verbatim>\<open>refreshAccessToken\<close> the next reply of \<open>tokenEndpoint\<close>; the
  result is \<open>None\<close> when the awaited response never comes.
\<close>

function fetchEmails :: "string \<Rightarrow> world \<Rightarrow> world option"
  and handle401Error :: "world \<Rightarrow> world option"
  and refreshAccessToken :: "string \<Rightarrow> world \<Rightarrow> world option"
where
  "fetchEmails accessToken w =
     (let token = orElse accessToken (googleToken w)
      in if token = [] then
           Some (setGmailStatus (\<lambda>prev. prev\<lparr>gs_error := ''Connect Gmail first.''\<rparr>) w)
         else
           (case inbox w of
              [] \<Rightarrow> None
            | c # rest \<Rightarrow>
                (let w1 = setGmailStatus (\<lambda>prev. prev\<lparr>gs_loading := True, gs_error := []\<rparr>)
                            (w\<lparr>inbox := rest, network := network w @ [ListMessages token]\<rparr>)
                 in case listing c of
                      Rejected msg \<Rightarrow> Some (fetchFailed msg w1)
                    | NotOk status errMessage \<Rightarrow>
                        if status = 401 then handle401Error w1
                        else Some (fetchFailed (orDefault errMessage ''Unable to load inbox.'') w1)
                    | Ok messageIds \<Rightarrow>
                        if messageIds = [] then
                          Some (setGmailStatus
                                  (\<lambda>prev. prev\<lparr>gs_loading := False, gs_connected := True,
                                                gs_lastSync := Some (clock w1)\<rparr>)
                                  (w1\<lparr>emails := [], selectedEmailId := None\<rparr>))
                        else
                          (let w2 = w1\<lparr>network := network w1 @ map (GetMessage token) messageIds\<rparr>
                           in case promiseAll (map (details c) messageIds) of
                                Inl msg \<Rightarrow> Some (fetchFailed msg w2)
                              | Inr detailed \<Rightarrow> Some (publish detailed w2)))))"
| "handle401Error w =
     (let w1 = w\<lparr>googleToken := [], storage := (storage w)(''gmail_access_token'' := None)\<rparr>
      in case storage w1 ''gmail_refresh_token'' of
           None \<Rightarrow>
             Some (setGmailStatus
                     (\<lambda>prev. prev\<lparr>gs_connected := False, gs_loading := False,
                                   gs_error := ''Authentication expired. Please reconnect to Gmail.'',
                                   gs_lastSync := None\<rparr>) w1)
         | Some refreshToken \<Rightarrow>
             if refreshToken = [] then
               Some (setGmailStatus
                       (\<lambda>prev. prev\<lparr>gs_connected := False, gs_loading := False,
                                     gs_error := ''Authentication expired. Please reconnect to Gmail.'',
                                     gs_lastSync := None\<rparr>) w1)
             else refreshAccessToken refreshToken w1)"
| "refreshAccessToken refreshToken w =
     (case tokenEndpoint w of
        [] \<Rightarrow> None
      | r # rest \<Rightarrow>
          (let w1 = w\<lparr>tokenEndpoint := rest, network := network w @ [TokenRefresh refreshToken]\<rparr>
           in case r of
                TokenThrows msg \<Rightarrow> Some (refreshFailed w1)
              | TokenJson access_token error_description \<Rightarrow>
                  (case access_token of
                     None \<Rightarrow> Some (refreshFailed w1)
                   | Some newToken \<Rightarrow>
                       if newToken = [] then Some (refreshFailed w1)
                       else
                         fetchEmails newToken
                           (setGmailStatus (\<lambda>prev. prev\<lparr>gs_error := [], gs_connected := True\<rparr>)
                              (w1\<lparr>googleToken := newToken,
                                  storage := (storage w1)(''gmail_access_token'' \<mapsto> newToken)\<rparr>)))))"
  by pat_completeness auto
termination
  by (relation "measure (\<lambda>x. case x of
          Inl (t, w) \<Rightarrow> 3 * (length (inbox w) + length (tokenEndpoint w)) + 2
        | Inr (Inl w) \<Rightarrow> 3 * (length (inbox w) + length (tokenEndpoint w)) + 1
        | Inr (Inr (r, w)) \<Rightarrow> 3 * (length (inbox w) + length (tokenEndpoint w)))")
     (auto simp: setGmailStatus_def)

declare fetchEmails.simps [simp del]
declare handle401Error.simps [simp del]
declare refreshAccessToken.simps [simp del]

section \<open>Reply drafts\<close>

text \<open>
  \<^verbatim>\<open>buildReplyMessage\<close>: the RFC 822 text, header lines joined by CR LF; the final
  base64url encoding is not modelled.
\<close>

definition crlf :: string where
  "crlf = [CHR 0x0D, CHR 0x0A]"

fun joinWith :: "string \<Rightarrow> string list \<Rightarrow> string" where
  "joinWith sep [] = []"
| "joinWith sep [x] = x"
| "joinWith sep (x # y # ys) = x @ sep @ joinWith sep (y # ys)"

definition buildReplyMessage :: "string \<Rightarrow> string \<Rightarrow> string \<Rightarrow> string \<Rightarrow> string" where
  "buildReplyMessage to subj bdy inReplyTo =
     (let headers =
            joinWith crlf
              ([''To: '' @ to, ''Subject: '' @ subj]
               @ (if inReplyTo \<noteq> [] then [''In-Reply-To: '' @ inReplyTo] else [])
               @ (if inReplyTo \<noteq> [] then [''References: '' @ inReplyTo] else [])
               @ [''Content-Type: text/plain; charset='' @ [CHR 0x22] @ ''UTF-8'' @ [CHR 0x22]])
      in joinWith crlf [headers, [], bdy])"

definition emptyDraft :: ReplyDraftState where
  "emptyDraft =
     \<lparr>rd_loading = False, rd_content = [], rd_error = None, rd_draftId = None,
      rd_savedAt = None, rd_saving = None, rd_sending = None, rd_dirty = None,
      rd_notice = None\<rparr>"

text \<open>The patch, an object spread over the existing record, is a record update.\<close>

definition patchReplyDraft ::
  "string \<Rightarrow> (ReplyDraftState \<Rightarrow> ReplyDraftState) \<Rightarrow> world \<Rightarrow> world" where
  "patchReplyDraft emailId patch w =
     (let existing = (case replyDrafts w emailId of None \<Rightarrow> emptyDraft | Some r \<Rightarrow> r)
      in w\<lparr>replyDrafts := (replyDrafts w)(emailId \<mapsto> patch existing)\<rparr>)"

definition handleDraftContentChange :: "string \<Rightarrow> string \<Rightarrow> world \<Rightarrow> world" where
  "handleDraftContentChange emailId v w =
     patchReplyDraft emailId
       (\<lambda>r. r\<lparr>rd_content := v, rd_dirty := Some True, rd_error := Some [], rd_notice := Some []\<rparr>) w"

text \<open>\<^verbatim>\<open>draftMeta?.content?.trim()\<close>; undefined and the empty string are both falsy.\<close>

definition draftBody :: "ReplyDraftState option \<Rightarrow> string" where
  "draftBody draftMeta = (case draftMeta of None \<Rightarrow> [] | Some r \<Rightarrow> trim (rd_content r))"

text \<open>The catch blocks of \<^verbatim>\<open>saveDraftEdits\<close> and \<^verbatim>\<open>sendReply\<close>.\<close>

definition saveFailed :: "string \<Rightarrow> string \<Rightarrow> world \<Rightarrow> world" where
  "saveFailed emailId err w =
     (case interpretGmailError err w of
        (message, w1) \<Rightarrow>
          patchReplyDraft emailId (\<lambda>r. r\<lparr>rd_saving := Some False, rd_error := Some message\<rparr>) w1)"

definition sendFailed :: "string \<Rightarrow> string \<Rightarrow> world \<Rightarrow> world" where
  "sendFailed emailId err w =
     (case interpretGmailError err w of
        (message, w1) \<Rightarrow>
          patchReplyDraft emailId (\<lambda>r. r\<lparr>rd_sending := Some False, rd_error := Some message\<rparr>) w1)"

text \<open>The request \<^verbatim>\<open>saveDraftEdits\<close> sends: PUT to the draft id when there is one, POST otherwise.\<close>

definition draftRequest ::
  "ReplyDraftState option \<Rightarrow> string \<Rightarrow> string \<Rightarrow> string option \<Rightarrow> request" where
  "draftRequest draftMeta token rfc822 thread =
     (case draftMeta of
        None \<Rightarrow> CreateDraft token rfc822 thread
      | Some r \<Rightarrow>
          (case rd_draftId r of
             None \<Rightarrow> CreateDraft token rfc822 thread
           | Some d \<Rightarrow>
               if d \<noteq> [] then UpdateDraft token d rfc822 thread
               else CreateDraft token rfc822 thread))"

text \<open>
  \<open>reply\<close> is the provider's answer to the draft request, read only when the request is
  sent: \<^verbatim>\<open>data.id\<close> and \<^verbatim>\<open>data.message.id\<close> of an ok response.
\<close>

definition saveDraftEdits ::
  "GmailEmail \<Rightarrow> (string option \<times> string option) fetched \<Rightarrow> world \<Rightarrow> world option" where
  "saveDraftEdits email reply w =
     (let draftMeta = replyDrafts w (email_id email);
          bdy = draftBody draftMeta
      in if bdy = [] then
           Some (patchReplyDraft (email_id email)
                   (\<lambda>r. r\<lparr>rd_error := Some ''Draft is empty. Add text before saving.''\<rparr>) w)
         else
           (let w1 = patchReplyDraft (email_id email)
                       (\<lambda>r. r\<lparr>rd_saving := Some True, rd_notice := Some []\<rparr>) w
            in if googleToken w = [] then
                 Some (saveFailed (email_id email) ''Connect Gmail first.'' w1)
               else
                 (case getReplyEnvelope email of
                    Inl msg \<Rightarrow> Some (saveFailed (email_id email) msg w1)
                  | Inr (recipient, replySubj) \<Rightarrow>
                      (let rfc822 = buildReplyMessage recipient replySubj bdy (messageId email);
                           w2 = w1\<lparr>network := network w1 @
                                   [draftRequest draftMeta (googleToken w) rfc822 (threadId email)]\<rparr>
                       in case reply of
                            Rejected msg \<Rightarrow> Some (saveFailed (email_id email) msg w2)
                          | NotOk status errMessage \<Rightarrow>
                              if status = 401 then
                                (case handle401Error w2 of
                                   None \<Rightarrow> None
                                 | Some w3 \<Rightarrow>
                                     Some (patchReplyDraft (email_id email)
                                             (\<lambda>r. r\<lparr>rd_saving := Some False,
                                                     rd_error := Some ''Authentication expired''\<rparr>) w3))
                              else
                                Some (saveFailed (email_id email)
                                        (orDefault errMessage ''Unable to save draft.'') w2)
                          | Ok data \<Rightarrow>
                              Some (patchReplyDraft (email_id email)
                                      (\<lambda>r. r\<lparr>rd_saving := Some False, rd_dirty := Some False,
                                              rd_draftId := orElseOpt (fst data) (snd data),
                                              rd_savedAt := Some (clock w2),
                                              rd_notice := Some ''Draft saved to Gmail.'',
                                              rd_error := Some []\<rparr>) w2)))))"

definition sendReply :: "GmailEmail \<Rightarrow> unit fetched \<Rightarrow> world \<Rightarrow> world option" where
  "sendReply email reply w =
     (let draftMeta = replyDrafts w (email_id email);
          bdy = draftBody draftMeta
      in if bdy = [] then
           Some (patchReplyDraft (email_id email)
                   (\<lambda>r. r\<lparr>rd_error := Some ''Draft is empty. Add text before sending.''\<rparr>) w)
         else
           (let w1 = patchReplyDraft (email_id email)
                       (\<lambda>r. r\<lparr>rd_sending := Some True, rd_notice := Some []\<rparr>) w
            in if googleToken w = [] then
                 Some (sendFailed (email_id email) ''Connect Gmail first.'' w1)
               else
                 (case getReplyEnvelope email of
                    Inl msg \<Rightarrow> Some (sendFailed (email_id email) msg w1)
                  | Inr (recipient, replySubj) \<Rightarrow>
                      (let rfc822 = buildReplyMessage recipient replySubj bdy (messageId email);
                           w2 = w1\<lparr>network := network w1 @
                                   [SendMessage (googleToken w) rfc822 (threadId email)]\<rparr>
                       in case reply of
                            Rejected msg \<Rightarrow> Some (sendFailed (email_id email) msg w2)
                          | NotOk status errMessage \<Rightarrow>
                              if status = 401 then
                                (case handle401Error w2 of
                                   None \<Rightarrow> None
                                 | Some w3 \<Rightarrow>
                                     Some (patchReplyDraft (email_id email)
                                             (\<lambda>r. r\<lparr>rd_sending := Some False,
                                                     rd_error := Some ''Authentication expired''\<rparr>) w3))
                              else
                                Some (sendFailed (email_id email)
                                        (orDefault errMessage ''Unable to send reply.'') w2)
                          | Ok u \<Rightarrow>
                              fetchEmails (googleToken w)
                                (patchReplyDraft (email_id email)
                                   (\<lambda>r. r\<lparr>rd_sending := Some False, rd_dirty := Some False,
                                           rd_notice := Some ''Reply sent!'',
                                           rd_error := Some []\<rparr>) w2)))))"

section \<open>Enrichment\<close>

definition defaultAnalysis :: EmailAnalysis where
  "defaultAnalysis =
     \<lparr>summary = [], category = ''FYI'', priority = 5, action_items = [], deadlines = [],
      key_points = []\<rparr>"

text \<open>The object \<^verbatim>\<open>JSON.parse\<close> returns: each field of the schema is there or not.\<close>

record AnalysisJson =
  j_summary :: "string option"
  j_category :: "string option"
  j_priority :: "int option"
  j_action_items :: "string list option"
  j_deadlines :: "string list option"
  j_key_points :: "string list option"

text \<open>\<^verbatim>\<open>{ ...defaultAnalysis, ...JSON.parse(content) }\<close>\<close>

definition spreadAnalysis :: "AnalysisJson \<Rightarrow> EmailAnalysis" where
  "spreadAnalysis j =
     \<lparr>summary = (case j_summary j of None \<Rightarrow> summary defaultAnalysis | Some v \<Rightarrow> v),
      category = (case j_category j of None \<Rightarrow> category defaultAnalysis | Some v \<Rightarrow> v),
      priority = (case j_priority j of None \<Rightarrow> priority defaultAnalysis | Some v \<Rightarrow> v),
      action_items = (case j_action_items j of None \<Rightarrow> action_items defaultAnalysis | Some v \<Rightarrow> v),
      deadlines = (case j_deadlines j of None \<Rightarrow> deadlines defaultAnalysis | Some v \<Rightarrow> v),
      key_points = (case j_key_points j of None \<Rightarrow> key_points defaultAnalysis | Some v \<Rightarrow> v)\<rparr>"

definition emptyJson :: AnalysisJson where
  "emptyJson =
     \<lparr>j_summary = None, j_category = None, j_priority = None, j_action_items = None,
      j_deadlines = None, j_key_points = None\<rparr>"

text \<open>
  The message content of an ok completion: empty (then \<^verbatim>\<open>'{}'\<close> is parsed), text that
  \<^verbatim>\<open>JSON.parse\<close> rejects with a message, or text that parses to an object.
\<close>

datatype chat_content = NoContent | InvalidJson string | Json AnalysisJson

text \<open>The try block of \<^verbatim>\<open>runAnalysis\<close> after the call: the thrown message or \<open>parsed\<close>.\<close>

fun analysisOutcome :: "chat_content fetched \<Rightarrow> string + EmailAnalysis" where
  "analysisOutcome (Rejected msg) = Inl msg"
| "analysisOutcome (NotOk status errMessage) = Inl (orDefault errMessage ''OpenAI call failed.'')"
| "analysisOutcome (Ok NoContent) = Inr (spreadAnalysis emptyJson)"
| "analysisOutcome (Ok (InvalidJson msg)) = Inl msg"
| "analysisOutcome (Ok (Json j)) = Inr (spreadAnalysis j)"

text \<open>
  \<^verbatim>\<open>runAnalysis\<close> up to its \<^verbatim>\<open>await fetch\<close>: the loading marker is set and the call is
  sent, all in the same synchronous step.
\<close>

definition runAnalysis_request :: "GmailEmail \<Rightarrow> world \<Rightarrow> world" where
  "runAnalysis_request email w =
     (if openAiKey w = [] then
        w\<lparr>analysisState := (analysisState w)(email_id email \<mapsto>
             \<lparr>as_loading = False, as_error = Some ''Set OPENAI_API_KEY in config.ts.''\<rparr>)\<rparr>
      else
        w\<lparr>analysisState := (analysisState w)(email_id email \<mapsto>
             \<lparr>as_loading = True, as_error = None\<rparr>),
          network := network w @ [ChatCompletion (email_id email)],
          pendingEnrichments := pendingEnrichments w @ [email_id email]\<rparr>)"

text \<open>\<^verbatim>\<open>runAnalysis\<close> from the moment the call to the model is answered.\<close>

definition runAnalysis_response ::
  "GmailEmail \<Rightarrow> bool \<Rightarrow> chat_content fetched \<Rightarrow> world \<Rightarrow> world" where
  "runAnalysis_response email focus reply w =
     (let w1 = w\<lparr>pendingEnrichments := remove1 (email_id email) (pendingEnrichments w)\<rparr>
      in case analysisOutcome reply of
           Inr parsed \<Rightarrow>
             w1\<lparr>analyses := (analyses w1)(email_id email \<mapsto> parsed),
                analysisState := (analysisState w1)(email_id email \<mapsto>
                   \<lparr>as_loading = False, as_error = None\<rparr>),
                selectedEmailId := (if focus then Some (email_id email) else selectedEmailId w1)\<rparr>
         | Inl msg \<Rightarrow>
             w1\<lparr>analysisState := (analysisState w1)(email_id email \<mapsto>
                   \<lparr>as_loading = False, as_error = Some msg\<rparr>)\<rparr>)"

text \<open>The test of \<^verbatim>\<open>emails.find\<close> in the scheduling effect.\<close>

definition unanalyzed :: "world \<Rightarrow> GmailEmail \<Rightarrow> bool" where
  "unanalyzed w email =
     (analyses w (email_id email) = None \<and>
      \<not> (case analysisState w (email_id email) of None \<Rightarrow> False | Some st \<Rightarrow> as_loading st))"

text \<open>
  The scheduling effect, run by React after every change of \<open>emails\<close>, \<open>analyses\<close> or
  \<open>analysisState\<close>.
\<close>

definition enrichmentEffect :: "world \<Rightarrow> world" where
  "enrichmentEffect w =
     (if openAiKey w = [] \<or> emails w = [] then w
      else case find (unanalyzed w) (emails w) of
             None \<Rightarrow> w
           | Some nextEmail \<Rightarrow> runAnalysis_request nextEmail w)"

section \<open>Outcome of a cycle\<close>


definition firstId :: "GmailEmail list \<Rightarrow> string option" where
  "firstId es = (case es of [] \<Rightarrow> None | e # _ \<Rightarrow> Some (email_id e))"


text \<open>The requests of the sync cycle and of the credential recovery.\<close>

fun isSyncRequest :: "request \<Rightarrow> bool" where
  "isSyncRequest (ListMessages t) = True"
| "isSyncRequest (GetMessage t i) = True"
| "isSyncRequest (TokenRefresh r) = True"
| "isSyncRequest (CreateDraft t m th) = False"
| "isSyncRequest (UpdateDraft t d m th) = False"
| "isSyncRequest (SendMessage t m th) = False"
| "isSyncRequest (ChatCompletion i) = False"

text \<open>
  From \<open>w\<close> to \<open>w'\<close> the draft records are the same and the trace has grown by requests
  of the sync cycle and the credential recovery only.
\<close>

definition syncOnly :: "world \<Rightarrow> world \<Rightarrow> bool" where
  "syncOnly w w' =
     (replyDrafts w' = replyDrafts w \<and>
      (\<exists>ext. network w' = network w @ ext \<and> list_all isSyncRequest ext))"

text \<open>The draft record of a message as \<^verbatim>\<open>patchReplyDraft\<close> reads it.\<close>

definition draftOf :: "world \<Rightarrow> string \<Rightarrow> ReplyDraftState" where
  "draftOf w emailId = (case replyDrafts w emailId of None \<Rightarrow> emptyDraft | Some r \<Rightarrow> r)"

text \<open>A request that updates the draft \<open>d\<close>.\<close>

fun isUpdateOf :: "string \<Rightarrow> request \<Rightarrow> bool" where
  "isUpdateOf d (UpdateDraft t d' m th) = (d' = d)"
| "isUpdateOf d (ListMessages t) = False"
| "isUpdateOf d (GetMessage t i) = False"
| "isUpdateOf d (TokenRefresh r) = False"
| "isUpdateOf d (CreateDraft t m th) = False"
| "isUpdateOf d (SendMessage t m th) = False"
| "isUpdateOf d (ChatCompletion i) = False"

section \<open>Concrete inputs\<close>

definition exampleEmail :: "string \<Rightarrow> string \<Rightarrow> GmailEmail" where
  "exampleEmail i s =
     \<lparr>email_id = i, threadId = Some ''t1'', messageId = ''<abc@mail>'', subject = ''Status'',
      sender = s, snippet = ''hello'', body = ''hello there'', internalDate = None\<rparr>"

definition exampleWorld :: "GmailEmail list \<Rightarrow> world" where
  "exampleWorld es =
     \<lparr>googleToken = ''tok'',
      storage = [''gmail_access_token'' \<mapsto> ''tok'', ''gmail_refresh_token'' \<mapsto> ''ref''],
      gmailStatus = \<lparr>gs_loading = False, gs_connected = True, gs_error = [],
                      gs_profile = None, gs_lastSync = None\<rparr>,
      emails = es, selectedEmailId = None, analyses = Map.empty, analysisState = Map.empty,
      replyDrafts = Map.empty, openAiKey = ''sk'', clock = ''2024-01-01T00:00:00.000Z'',
      network = [], pendingEnrichments = [], inbox = [], tokenEndpoint = []\<rparr>"

definition mailA :: GmailEmail where
  "mailA = exampleEmail ''a'' ''Jane Doe <jane@example.com>''"

definition mailB :: GmailEmail where
  "mailB = exampleEmail ''b'' ''bob@example.com''"

definition rawA :: RawMessage where
  "rawA = \<lparr>raw_id = ''a'', raw_threadId = Some ''t1'', raw_snippet = ''hello'',
           raw_internalDate = None,
           raw_headers = [(''Message-ID'', ''<abc@mail>''),
                          (''From'', ''Jane Doe <jane@example.com>''), (''Subject'', ''Status'')],
           raw_body = ''hello there''\<rparr>"

definition rawB :: RawMessage where
  "rawB = \<lparr>raw_id = ''b'', raw_threadId = None, raw_snippet = ''bye'',
           raw_internalDate = None, raw_headers = [], raw_body = ''bye now''\<rparr>"

text \<open>Three cycles: all fetches succeed; the fetch of message \<open>b\<close> fails; the listing gets a 401.\<close>

definition cycleOk :: cycle where
  "cycleOk = \<lparr>listing = Ok [''a'', ''b''],
              details = (\<lambda>i. if i = ''a'' then Ok (Some rawA) else Ok (Some rawB))\<rparr>"

definition cycleDetailFails :: cycle where
  "cycleDetailFails = \<lparr>listing = Ok [''a'', ''b''],
              details = (\<lambda>i. if i = ''a'' then Ok (Some rawA) else NotOk 500 None)\<rparr>"

definition cycleUnauthorized :: cycle where
  "cycleUnauthorized = \<lparr>listing = NotOk 401 None, details = (\<lambda>i. Rejected ''unused'')\<rparr>"

definition cycleEmpty :: cycle where
  "cycleEmpty = \<lparr>listing = Ok [], details = (\<lambda>i. Rejected ''unused'')\<rparr>"

definition worldWith :: "cycle list \<Rightarrow> token_reply list \<Rightarrow> world" where
  "worldWith cs ts = (exampleWorld [mailB])\<lparr>inbox := cs, tokenEndpoint := ts\<rparr>"

definition draftWorld :: "string \<Rightarrow> string option \<Rightarrow> world" where
  "draftWorld txt d =
     (exampleWorld [mailA])\<lparr>replyDrafts :=
        [''a'' \<mapsto> emptyDraft\<lparr>rd_content := txt, rd_draftId := d,
                                 rd_savedAt := Some ''2023-12-31T00:00:00.000Z''\<rparr>]\<rparr>"

section \<open>Subject normalisation\<close>

lemma trim_fixed:
  assumes "s \<noteq> []" "\<not> isWhiteSpace (hd s)" "\<not> isWhiteSpace (last s)"
  shows "trim s = s"
proof -
  from assms have a: "dropWhile isWhiteSpace s = s"
    by (cases s) simp_all
  from assms have b: "dropWhile isWhiteSpace (rev s) = rev s"
    by (cases "rev s") (simp_all add: hd_rev)
  show ?thesis by (simp add: trim_def a b)
qed

lemma trim_ends:
  assumes "trim s \<noteq> []"
  shows "\<not> isWhiteSpace (hd (trim s)) \<and> \<not> isWhiteSpace (last (trim s))"
proof -
  let ?d = "dropWhile isWhiteSpace s"
  let ?e = "dropWhile isWhiteSpace (rev ?d)"
  from assms have e: "?e \<noteq> []" by (simp add: trim_def)
  then have l: "\<not> isWhiteSpace (hd ?e)" by (rule hd_dropWhile)
  have "last (trim s) = hd ?e" using e by (simp add: trim_def last_rev)
  with l have 1: "\<not> isWhiteSpace (last (trim s))" by simp
  have d: "?d \<noteq> []"
  proof
    assume "?d = []"
    then have "?e = []" by (simp only: rev.simps dropWhile.simps)
    with e show False by simp
  qed
  then have hd: "\<not> isWhiteSpace (hd ?d)" by (rule hd_dropWhile)
  have "\<exists>ys. rev ?d = ys @ ?e" by (metis takeWhile_dropWhile_id)
  then obtain ys where "rev ?d = ys @ ?e" ..
  then have "?d = rev ?e @ rev ys" by (metis rev_append rev_rev_ident)
  then have "hd ?d = hd (rev ?e)" using e by (metis hd_append2 rev_is_Nil_conv)
  with hd have "\<not> isWhiteSpace (hd (trim s))" by (simp add: trim_def)
  with 1 show ?thesis by simp
qed

lemma lower_R: "toLowerChar (CHR ''R'') = CHR ''r''" by code_simp
lemma lower_e: "toLowerChar (CHR ''e'') = CHR ''e''" by code_simp
lemma lower_colon: "toLowerChar (CHR '':'') = CHR '':''" by code_simp

lemma startsWith_Re: "startsWith (toLowerCase (''Re: '' @ t)) ''re:''"
  by (simp add: startsWith_def toLowerCase_def lower_R lower_e lower_colon)

lemma trim_Re:
  assumes "t \<noteq> []" "\<not> isWhiteSpace (last t)"
  shows "trim (''Re: '' @ t) = ''Re: '' @ t"
proof (rule trim_fixed)
  show "''Re: '' @ t \<noteq> []" by simp
  show "\<not> isWhiteSpace (hd (''Re: '' @ t))" by (simp add: isWhiteSpace_def)
  show "\<not> isWhiteSpace (last (''Re: '' @ t))" using assms by simp
qed

lemma subjectBase_props:
  "orElse (trim s) ''(no subject)'' \<noteq> [] \<and>
   \<not> isWhiteSpace (hd (orElse (trim s) ''(no subject)'')) \<and>
   \<not> isWhiteSpace (last (orElse (trim s) ''(no subject)''))"
proof (cases "trim s = []")
  case True then show ?thesis by (simp add: orElse_def isWhiteSpace_def)
next
  case False
  with trim_ends[OF False] show ?thesis by (simp add: orElse_def)
qed

lemma replySubject_Re:
  assumes "b \<noteq> []" "\<not> isWhiteSpace (last b)"
  shows "replySubject (''Re: '' @ b) = ''Re: '' @ b"
  using startsWith_Re[of b] trim_Re[OF assms]
  by (simp add: replySubject_def orElse_def)

lemma replySubject_keeps:
  assumes "b \<noteq> []" "\<not> isWhiteSpace (hd b)" "\<not> isWhiteSpace (last b)"
    "startsWith (toLowerCase b) ''re:''"
  shows "replySubject b = b"
  using assms trim_fixed[of b] by (simp add: replySubject_def orElse_def)

text \<open>
  Claim C7, as the code has it.  Normalising a subject twice gives the same string as
  normalising it once.  For a subject \<open>x\<close> that is not empty, has no white space at
  either end and does not already start with \<open>re:\<close> in any letter case, normalising \<open>x\<close>
  and normalising \<open>Re: x\<close> both give \<open>Re: x\<close>.  A subject that, trimmed, already starts
  with \<open>re:\<close> in any letter case is returned trimmed and gets no second prefix.
\<close>

theorem replySubject_normal_form:
  "replySubject (replySubject s) = replySubject s \<and>
   (x \<noteq> [] \<and> trim x = x \<and> \<not> startsWith (toLowerCase x) ''re:'' \<longrightarrow>
      replySubject x = ''Re: '' @ x \<and> replySubject (''Re: '' @ x) = ''Re: '' @ x) \<and>
   (startsWith (toLowerCase (trim s)) ''re:'' \<longrightarrow> replySubject s = trim s)"
proof (intro conjI impI)
  let ?b = "orElse (trim s) ''(no subject)''"
  from subjectBase_props[of s]
  have b: "?b \<noteq> []" "\<not> isWhiteSpace (hd ?b)" "\<not> isWhiteSpace (last ?b)" by simp_all
  show "replySubject (replySubject s) = replySubject s"
  proof (cases "startsWith (toLowerCase ?b) ''re:''")
    case True
    then have "replySubject s = ?b" by (simp add: replySubject_def)
    with replySubject_keeps[OF b True] show ?thesis by simp
  next
    case False
    then have "replySubject s = ''Re: '' @ ?b" by (simp add: replySubject_def)
    with replySubject_Re[OF b(1) b(3)] show ?thesis by simp
  qed
next
  assume a: "x \<noteq> [] \<and> trim x = x \<and> \<not> startsWith (toLowerCase x) ''re:''"
  then show "replySubject x = ''Re: '' @ x"
    by (simp add: replySubject_def orElse_def)
  from a have "trim x \<noteq> []" by simp
  from trim_ends[OF this] a have "\<not> isWhiteSpace (last x)" by simp
  with a replySubject_Re[of x] show "replySubject (''Re: '' @ x) = ''Re: '' @ x"
    by simp
next
  assume a: "startsWith (toLowerCase (trim s)) ''re:''"
  then have "trim s \<noteq> []" by (auto simp: startsWith_def toLowerCase_def)
  with a show "replySubject s = trim s"
    by (simp add: replySubject_def orElse_def)
qed

text \<open>The three parts of the statement at concrete subjects.\<close>

theorem replySubject_normal_form_witness:
  "replySubject (replySubject ''  hello '') = replySubject ''  hello '' \<and>
   replySubject ''Status'' = ''Re: Status'' \<and> replySubject ''Re: Status'' = ''Re: Status'' \<and>
   replySubject '' rE: x'' = ''rE: x''"
proof -
  have 1: "''Status'' \<noteq> [] \<and> trim ''Status'' = ''Status''
      \<and> \<not> startsWith (toLowerCase ''Status'') ''re:''" by code_simp
  have 2: "startsWith (toLowerCase (trim '' rE: x'')) ''re:''" by code_simp
  have 3: "trim '' rE: x'' = ''rE: x''" by code_simp
  from replySubject_normal_form[of "''  hello ''" "''Status''"] 1
    replySubject_normal_form[of "'' rE: x''" "''Status''"] 2 3
  show ?thesis by simp
qed

text \<open>
  Claim C7 as it is written asks that normalising \<open>X\<close> gives \<open>Re: X\<close> for every
  subject \<open>X\<close>; a subject that starts with \<open>RE:\<close> is returned as it is.
\<close>

theorem replySubject_counterexample:
  "replySubject ''RE: status'' = ''RE: status'' \<and> replySubject ''RE: status'' \<noteq> ''Re: RE: status''"
  by code_simp

section \<open>Reply recipient\<close>




section \<open>Enrichment queue\<close>

lemma find_first:
  "(\<forall>x \<in> set pre. \<not> P x) \<Longrightarrow> P e \<Longrightarrow> find P (pre @ e # post) = Some e"
  by (induction pre) simp_all

text \<open>
  Claim C3, as the code has it.  One scheduling step starts at most one enrichment call:
  when the key is configured it selects the first message in snapshot order that has no
  insight record and no loading marker, and sends the call for that message only; when
  there is no such message, or no key, it changes nothing.  The step does not look at
  the calls already outstanding.
\<close>

theorem enrichmentEffect_selects_first:
  "(openAiKey w \<noteq> [] \<and> emails w = pre @ e # post \<and> (\<forall>x \<in> set pre. \<not> unanalyzed w x)
      \<and> unanalyzed w e \<longrightarrow>
      enrichmentEffect w = runAnalysis_request e w \<and>
      pendingEnrichments (enrichmentEffect w) = pendingEnrichments w @ [email_id e] \<and>
      network (enrichmentEffect w) = network w @ [ChatCompletion (email_id e)]) \<and>
   (openAiKey w = [] \<or> (\<forall>x \<in> set (emails w). \<not> unanalyzed w x) \<longrightarrow> enrichmentEffect w = w) \<and>
   length (pendingEnrichments (enrichmentEffect w)) \<le> Suc (length (pendingEnrichments w))"
proof (intro conjI impI)
  assume a: "openAiKey w \<noteq> [] \<and> emails w = pre @ e # post \<and>
    (\<forall>x \<in> set pre. \<not> unanalyzed w x) \<and> unanalyzed w e"
  then have f: "find (unanalyzed w) (emails w) = Some e"
    by (simp add: find_first)
  with a show 1: "enrichmentEffect w = runAnalysis_request e w"
    by (simp add: enrichmentEffect_def)
  from a show "pendingEnrichments (enrichmentEffect w) = pendingEnrichments w @ [email_id e]"
    by (simp add: 1 runAnalysis_request_def)
  from a show "network (enrichmentEffect w) = network w @ [ChatCompletion (email_id e)]"
    by (simp add: 1 runAnalysis_request_def)
next
  assume "openAiKey w = [] \<or> (\<forall>x \<in> set (emails w). \<not> unanalyzed w x)"
  then have "openAiKey w = [] \<or> find (unanalyzed w) (emails w) = None"
    by (auto simp: find_None_iff)
  then show "enrichmentEffect w = w"
    by (auto simp: enrichmentEffect_def)
next
  show "length (pendingEnrichments (enrichmentEffect w)) \<le> Suc (length (pendingEnrichments w))"
    by (simp add: enrichmentEffect_def runAnalysis_request_def split: option.splits)
qed

text \<open>
  A snapshot of two messages whose first one is loading, and an empty snapshot.
\<close>

theorem enrichmentEffect_selects_first_witness:
  "enrichmentEffect (runAnalysis_request mailA (exampleWorld [mailA, mailB]))
     = runAnalysis_request mailB (runAnalysis_request mailA (exampleWorld [mailA, mailB])) \<and>
   pendingEnrichments (enrichmentEffect (runAnalysis_request mailA (exampleWorld [mailA, mailB])))
     = [''a'', ''b''] \<and>
   enrichmentEffect (exampleWorld []) = exampleWorld []"
proof -
  let ?w = "runAnalysis_request mailA (exampleWorld [mailA, mailB])"
  have 1: "openAiKey ?w \<noteq> [] \<and> emails ?w = [mailA] @ mailB # [] \<and>
     (\<forall>x \<in> set [mailA]. \<not> unanalyzed ?w x) \<and> unanalyzed ?w mailB"
    by (simp add: runAnalysis_request_def exampleWorld_def unanalyzed_def mailA_def mailB_def
        exampleEmail_def)
  have 2: "pendingEnrichments ?w @ [email_id mailB] = [''a'', ''b'']"
    by (simp add: runAnalysis_request_def exampleWorld_def mailA_def mailB_def exampleEmail_def)
  have 3: "openAiKey (exampleWorld []) = [] \<or>
     (\<forall>x \<in> set (emails (exampleWorld [])). \<not> unanalyzed (exampleWorld []) x)"
    by (simp add: exampleWorld_def)
  from enrichmentEffect_selects_first[of ?w "[mailA]" mailB "[]"] 1 2
    enrichmentEffect_selects_first[of "exampleWorld []" "[]" mailA "[]"] 3
  show ?thesis by auto
qed

text \<open>
  Claim C3 as it is written asks for at most one outstanding call.  The first step marks
  message \<open>a\<close> as loading, which changes \<open>analysisState\<close> and runs the effect again; the
  second step then sends the call for \<open>b\<close> while the call for \<open>a\<close> is outstanding.
\<close>

theorem enrichmentEffect_counterexample:
  "pendingEnrichments (enrichmentEffect (enrichmentEffect (exampleWorld [mailA, mailB])))
     = [''a'', ''b'']"
  by (simp add: enrichmentEffect_def runAnalysis_request_def exampleWorld_def unanalyzed_def
      mailA_def mailB_def exampleEmail_def)

text \<open>
  Claim C2, as the code has it.  When the attempt for a message without an insight record
  fails, the message's enrichment state becomes not loading with the error message, and
  no insight is stored.  The message thereby satisfies the test of the scheduling effect
  again: the next step selects it, unless an earlier message of the snapshot qualifies,
  and sends a new call for it.
\<close>

theorem runAnalysis_failure_recorded:
  "analysisOutcome reply = Inl msg \<and> analyses w (email_id e) = None \<longrightarrow>
     analysisState (runAnalysis_response e focus reply w) (email_id e)
       = Some \<lparr>as_loading = False, as_error = Some msg\<rparr> \<and>
     analyses (runAnalysis_response e focus reply w) = analyses w \<and>
     emails (runAnalysis_response e focus reply w) = emails w \<and>
     unanalyzed (runAnalysis_response e focus reply w) e \<and>
     (openAiKey w \<noteq> [] \<and> emails w = pre @ e # post \<and>
      (\<forall>x \<in> set pre. \<not> unanalyzed (runAnalysis_response e focus reply w) x) \<longrightarrow>
        enrichmentEffect (runAnalysis_response e focus reply w)
          = runAnalysis_request e (runAnalysis_response e focus reply w))"
proof (intro impI)
  assume a: "analysisOutcome reply = Inl msg \<and> analyses w (email_id e) = None"
  let ?w = "runAnalysis_response e focus reply w"
  from a have 1: "analysisState ?w (email_id e) = Some \<lparr>as_loading = False, as_error = Some msg\<rparr>"
    by (simp add: runAnalysis_response_def)
  from a have 2: "analyses ?w = analyses w" by (simp add: runAnalysis_response_def)
  from a have 3: "emails ?w = emails w" by (simp add: runAnalysis_response_def)
  from a have 0: "openAiKey ?w = openAiKey w" by (simp add: runAnalysis_response_def)
  from a 1 2 have 4: "unanalyzed ?w e" by (simp add: unanalyzed_def)
  have 5: "openAiKey w \<noteq> [] \<and> emails w = pre @ e # post \<and>
      (\<forall>x \<in> set pre. \<not> unanalyzed ?w x) \<longrightarrow> enrichmentEffect ?w = runAnalysis_request e ?w"
  proof
    assume b: "openAiKey w \<noteq> [] \<and> emails w = pre @ e # post \<and> (\<forall>x \<in> set pre. \<not> unanalyzed ?w x)"
    with 4 have "find (unanalyzed ?w) (emails ?w) = Some e"
      by (simp add: 3 find_first)
    with b show "enrichmentEffect ?w = runAnalysis_request e ?w"
      by (simp add: enrichmentEffect_def 0 3)
  qed
  from 1 2 3 4 5 show "analysisState ?w (email_id e) = Some \<lparr>as_loading = False, as_error = Some msg\<rparr> \<and>
     analyses ?w = analyses w \<and> emails ?w = emails w \<and> unanalyzed ?w e \<and>
     (openAiKey w \<noteq> [] \<and> emails w = pre @ e # post \<and>
      (\<forall>x \<in> set pre. \<not> unanalyzed ?w x) \<longrightarrow> enrichmentEffect ?w = runAnalysis_request e ?w)"
    by blast
qed


text \<open>
  A snapshot of one message whose call is answered with a response that is not ok.
\<close>

theorem runAnalysis_failure_recorded_witness:
  "analysisState (runAnalysis_response mailA False (NotOk 500 None) (enrichmentEffect (exampleWorld [mailA])))
      ''a'' = Some \<lparr>as_loading = False, as_error = Some ''OpenAI call failed.''\<rparr> \<and>
   unanalyzed (runAnalysis_response mailA False (NotOk 500 None) (enrichmentEffect (exampleWorld [mailA]))) mailA \<and>
   enrichmentEffect (runAnalysis_response mailA False (NotOk 500 None) (enrichmentEffect (exampleWorld [mailA])))
     = runAnalysis_request mailA
         (runAnalysis_response mailA False (NotOk 500 None) (enrichmentEffect (exampleWorld [mailA])))"
proof -
  let ?w = "enrichmentEffect (exampleWorld [mailA])"
  have 1: "analysisOutcome (NotOk 500 None) = Inl ''OpenAI call failed.'' \<and>
      analyses ?w (email_id mailA) = None"
    by (simp add: orDefault_def enrichmentEffect_def runAnalysis_request_def exampleWorld_def
        unanalyzed_def)
  have 2: "openAiKey ?w \<noteq> [] \<and> emails ?w = [] @ mailA # [] \<and>
      (\<forall>x \<in> set []. \<not> unanalyzed (runAnalysis_response mailA False (NotOk 500 None) ?w) x)"
    by (simp add: enrichmentEffect_def runAnalysis_request_def exampleWorld_def unanalyzed_def)
  have 3: "email_id mailA = ''a''" by (simp add: mailA_def exampleEmail_def)
  from runAnalysis_failure_recorded[of "NotOk 500 None" "''OpenAI call failed.''" ?w mailA
      False "[]" "[]"] 1 2 3
  show ?thesis by simp
qed

text \<open>
  Claim C2 as it is written says that the failed message is not retried.  With two
  messages, both calls are sent; when the call for \<open>a\<close> fails, the next scheduling step
  sends a second call for \<open>a\<close>.
\<close>

theorem runAnalysis_retry_counterexample:
  "network (enrichmentEffect (runAnalysis_response mailA False (NotOk 500 None)
      (enrichmentEffect (enrichmentEffect (exampleWorld [mailA, mailB])))))
     = [ChatCompletion ''a'', ChatCompletion ''b'', ChatCompletion ''a'']"
  by (simp add: enrichmentEffect_def runAnalysis_request_def runAnalysis_response_def
      exampleWorld_def unanalyzed_def mailA_def mailB_def exampleEmail_def orDefault_def)

text \<open>
  Claim C9, as the code has it.  \<^verbatim>\<open>runAnalysis\<close> validates nothing: whatever object
  the content parses to is spread over the default analysis and stored as the insight
  record of the message, with no error; a field that is missing takes its default
  (category \<open>FYI\<close>, priority 5), and an empty content gives the default analysis.  The
  enrichment fails, storing no insight and recording the message, only when the call is
  rejected, the response is not ok, or the content is not JSON.
\<close>

theorem runAnalysis_stores_unvalidated:
  "analyses (runAnalysis_response e focus (Ok (Json j)) w) (email_id e) = Some (spreadAnalysis j) \<and>
   analysisState (runAnalysis_response e focus (Ok (Json j)) w) (email_id e)
     = Some \<lparr>as_loading = False, as_error = None\<rparr> \<and>
   category (spreadAnalysis j) = (case j_category j of None \<Rightarrow> ''FYI'' | Some v \<Rightarrow> v) \<and>
   priority (spreadAnalysis j) = (case j_priority j of None \<Rightarrow> 5 | Some v \<Rightarrow> v) \<and>
   analysisOutcome (Ok NoContent) = Inr defaultAnalysis \<and>
   (analysisOutcome reply = Inl msg \<longrightarrow>
      analyses (runAnalysis_response e focus reply w) = analyses w \<and>
      analysisState (runAnalysis_response e focus reply w) (email_id e)
        = Some \<lparr>as_loading = False, as_error = Some msg\<rparr>) \<and>
   analysisOutcome (Ok (InvalidJson msg)) = Inl msg \<and>
   analysisOutcome (Rejected msg) = Inl msg \<and>
   analysisOutcome (NotOk status errMessage) = Inl (orDefault errMessage ''OpenAI call failed.'')"
  by (simp add: runAnalysis_response_def spreadAnalysis_def defaultAnalysis_def emptyJson_def
      Let_def split: option.split)

text \<open>
  A content that \<^verbatim>\<open>JSON.parse\<close> rejects.
\<close>

theorem runAnalysis_stores_unvalidated_witness:
  "analysisOutcome (Ok (InvalidJson ''Unexpected token'')) = Inl ''Unexpected token'' \<and>
   analyses (runAnalysis_response mailA False (Ok (InvalidJson ''Unexpected token''))
               (enrichmentEffect (exampleWorld [mailA]))) ''a'' = None \<and>
   analysisState (runAnalysis_response mailA False (Ok (InvalidJson ''Unexpected token''))
               (enrichmentEffect (exampleWorld [mailA]))) ''a''
     = Some \<lparr>as_loading = False, as_error = Some ''Unexpected token''\<rparr>"
proof -
  let ?w = "enrichmentEffect (exampleWorld [mailA])"
  have 1: "analysisOutcome (Ok (InvalidJson ''Unexpected token'')) = Inl ''Unexpected token''"
    by simp
  have 2: "analyses ?w ''a'' = None"
    by (simp add: enrichmentEffect_def runAnalysis_request_def exampleWorld_def)
  have 3: "email_id mailA = ''a''" by (simp add: mailA_def exampleEmail_def)
  from runAnalysis_stores_unvalidated[of mailA False emptyJson ?w
      "Ok (InvalidJson ''Unexpected token'')" "''Unexpected token''" 500 None] 1 2 3
  show ?thesis by simp
qed

text \<open>
  Claim C9 as it is written asks that a payload outside the schema is not stored.  A
  payload with category \<open>Spam\<close> and priority 99 becomes the insight record of the message
  and no error is recorded.
\<close>

theorem runAnalysis_invalid_payload_counterexample:
  "analyses (runAnalysis_response mailA False
       (Ok (Json \<lparr>j_summary = Some ''x'', j_category = Some ''Spam'', j_priority = Some 99,
                  j_action_items = None, j_deadlines = None, j_key_points = None\<rparr>))
       (enrichmentEffect (exampleWorld [mailA]))) ''a''
     = Some \<lparr>summary = ''x'', category = ''Spam'', priority = 99, action_items = [],
              deadlines = [], key_points = []\<rparr> \<and>
   analysisState (runAnalysis_response mailA False
       (Ok (Json \<lparr>j_summary = Some ''x'', j_category = Some ''Spam'', j_priority = Some 99,
                  j_action_items = None, j_deadlines = None, j_key_points = None\<rparr>))
       (enrichmentEffect (exampleWorld [mailA]))) ''a''
     = Some \<lparr>as_loading = False, as_error = None\<rparr>"
  by (simp add: runAnalysis_response_def spreadAnalysis_def defaultAnalysis_def mailA_def
      exampleEmail_def Let_def)

section \<open>Sync cycle\<close>


lemma fetchFailed_fields [simp]:
  "emails (fetchFailed err w) = emails w"
  "selectedEmailId (fetchFailed err w) = selectedEmailId w"
  "googleToken (fetchFailed err w) = googleToken w"
  "storage (fetchFailed err w) = storage w"
  "network (fetchFailed err w) = network w"
  "replyDrafts (fetchFailed err w) = replyDrafts w"
  "inbox (fetchFailed err w) = inbox w"
  by (simp_all add: fetchFailed_def interpretGmailError_def setGmailStatus_def)

lemma refreshFailed_fields [simp]:
  "emails (refreshFailed w) = emails w"
  "selectedEmailId (refreshFailed w) = selectedEmailId w"
  "network (refreshFailed w) = network w"
  "replyDrafts (refreshFailed w) = replyDrafts w"
  by (simp_all add: refreshFailed_def setGmailStatus_def)

lemma setGmailStatus_fields [simp]:
  "emails (setGmailStatus f w) = emails w"
  "selectedEmailId (setGmailStatus f w) = selectedEmailId w"
  "googleToken (setGmailStatus f w) = googleToken w"
  "storage (setGmailStatus f w) = storage w"
  "network (setGmailStatus f w) = network w"
  "replyDrafts (setGmailStatus f w) = replyDrafts w"
  "inbox (setGmailStatus f w) = inbox w"
  "tokenEndpoint (setGmailStatus f w) = tokenEndpoint w"
  "clock (setGmailStatus f w) = clock w"
  "gmailStatus (setGmailStatus f w) = f (gmailStatus w)"
  by (simp_all add: setGmailStatus_def)

lemma publish_fields [simp]:
  "emails (publish detailed w) = List.map_filter normalizeMessage detailed"
  "selectedEmailId (publish detailed w) = firstId (List.map_filter normalizeMessage detailed)"
  "network (publish detailed w) = network w"
  "replyDrafts (publish detailed w) = replyDrafts w"
  by (simp_all add: publish_def Let_def firstId_def)




lemma fetchFailed_not_loading [simp]: "\<not> gs_loading (gmailStatus (fetchFailed err w))"
  by (simp add: fetchFailed_def interpretGmailError_def setGmailStatus_def)


lemmas example_defs =
  worldWith_def exampleWorld_def mailA_def mailB_def exampleEmail_def rawA_def rawB_def
  cycleOk_def cycleDetailFails_def cycleUnauthorized_def cycleEmpty_def




text \<open>
  Claim C10.  After a cycle whose listing and detail fetches all succeed, the snapshot
  is the list of normalised messages, the selected id is the id of its first message
  (none when the snapshot is empty), the status is connected and not loading, and the
  last-sync time is the time of the run.  When the provider lists no ids the snapshot
  is empty, the selection is none, and the last-sync time is set all the same.
\<close>

theorem fetchEmails_success_selects_first:
  "orElse accessToken (googleToken w) \<noteq> [] \<and> inbox w = c # rest \<and> listing c = Ok messageIds \<and>
   promiseAll (map (details c) messageIds) = Inr detailed \<longrightarrow>
     (\<exists>w'. fetchEmails accessToken w = Some w' \<and>
        emails w' = List.map_filter normalizeMessage detailed \<and>
        selectedEmailId w' = (case emails w' of [] \<Rightarrow> None | e # _ \<Rightarrow> Some (email_id e)) \<and>
        gs_lastSync (gmailStatus w') = Some (clock w) \<and>
        gs_connected (gmailStatus w') \<and> \<not> gs_loading (gmailStatus w') \<and>
        (messageIds = [] \<longrightarrow> emails w' = [] \<and> selectedEmailId w' = None))"
proof
  assume a: "orElse accessToken (googleToken w) \<noteq> [] \<and> inbox w = c # rest \<and>
    listing c = Ok messageIds \<and> promiseAll (map (details c) messageIds) = Inr detailed"
  show "\<exists>w'. fetchEmails accessToken w = Some w' \<and>
        emails w' = List.map_filter normalizeMessage detailed \<and>
        selectedEmailId w' = (case emails w' of [] \<Rightarrow> None | e # _ \<Rightarrow> Some (email_id e)) \<and>
        gs_lastSync (gmailStatus w') = Some (clock w) \<and>
        gs_connected (gmailStatus w') \<and> \<not> gs_loading (gmailStatus w') \<and>
        (messageIds = [] \<longrightarrow> emails w' = [] \<and> selectedEmailId w' = None)"
  proof (cases "messageIds = []")
    case True
    with a have "detailed = []" by simp
    with a True show ?thesis
      by (simp add: fetchEmails.simps Let_def setGmailStatus_def)
  next
    case False
    with a show ?thesis
      by (simp add: fetchEmails.simps Let_def setGmailStatus_def publish_def)
  qed
qed

text \<open>
  A cycle of two messages and a cycle with an empty listing.
\<close>

theorem fetchEmails_success_selects_first_witness:
  "(\<exists>w'. fetchEmails ''tok'' (worldWith [cycleOk] []) = Some w' \<and>
      map email_id (emails w') = [''a'', ''b''] \<and> selectedEmailId w' = Some ''a'' \<and>
      gs_lastSync (gmailStatus w') = Some ''2024-01-01T00:00:00.000Z'') \<and>
   (\<exists>w'. fetchEmails ''tok'' (worldWith [cycleEmpty] []) = Some w' \<and>
      emails w' = [] \<and> selectedEmailId w' = None \<and>
      gs_lastSync (gmailStatus w') = Some ''2024-01-01T00:00:00.000Z'')"
proof -
  let ?w = "worldWith [cycleOk] []"
  let ?v = "worldWith [cycleEmpty] []"
  have 1: "orElse ''tok'' (googleToken ?w) \<noteq> [] \<and> inbox ?w = cycleOk # [] \<and>
      listing cycleOk = Ok [''a'', ''b''] \<and>
      promiseAll (map (details cycleOk) [''a'', ''b'']) = Inr [Some rawA, Some rawB]"
    by (simp add: example_defs orElse_def)
  have 2: "\<exists>x xs. List.map_filter normalizeMessage [Some rawA, Some rawB] = x # xs \<and>
      email_id x = ''a'' \<and> map email_id (x # xs) = [''a'', ''b'']"
    by (simp add: example_defs normalizeMessage_def)
  have 3: "orElse ''tok'' (googleToken ?v) \<noteq> [] \<and> inbox ?v = cycleEmpty # [] \<and>
      listing cycleEmpty = Ok [] \<and> promiseAll (map (details cycleEmpty) []) = Inr []"
    by (simp add: example_defs orElse_def)
  have 4: "clock ?w = ''2024-01-01T00:00:00.000Z'' \<and> clock ?v = ''2024-01-01T00:00:00.000Z''"
    by (simp add: example_defs)
  from fetchEmails_success_selects_first[of "''tok''" ?w cycleOk "[]" "[''a'', ''b'']"
      "[Some rawA, Some rawB]"] 1
  obtain w' where f: "fetchEmails ''tok'' ?w = Some w'"
    and e: "emails w' = List.map_filter normalizeMessage [Some rawA, Some rawB]"
    and s: "selectedEmailId w' = (case emails w' of [] \<Rightarrow> None | e # _ \<Rightarrow> Some (email_id e))"
    and l: "gs_lastSync (gmailStatus w') = Some (clock ?w)"
    by blast
  from 2 e obtain x xs where x: "emails w' = x # xs" "email_id x = ''a''"
      "map email_id (x # xs) = [''a'', ''b'']" by auto
  from s x have "selectedEmailId w' = Some ''a''" by simp
  with f x l 4
  have a: "\<exists>w'. fetchEmails ''tok'' ?w = Some w' \<and>
      map email_id (emails w') = [''a'', ''b''] \<and> selectedEmailId w' = Some ''a'' \<and>
      gs_lastSync (gmailStatus w') = Some ''2024-01-01T00:00:00.000Z''"
    by auto
  from fetchEmails_success_selects_first[of "''tok''" ?v cycleEmpty "[]" "[]" "[]"] 3 4
  have "\<exists>w'. fetchEmails ''tok'' ?v = Some w' \<and>
      emails w' = [] \<and> selectedEmailId w' = None \<and>
      gs_lastSync (gmailStatus w') = Some ''2024-01-01T00:00:00.000Z''"
    by auto
  with a show ?thesis by blast
qed

text \<open>
  Claim C4.  When the token endpoint rejects the refresh grant (the call throws, or the
  body carries no access token), \<^verbatim>\<open>refreshAccessToken\<close> removes the access token and
  the refresh token from storage, empties the token in memory and sets the status to not
  connected.  The same holds when the recovery after a 401 runs the refresh with the
  stored refresh token.
\<close>

theorem refreshAccessToken_rejected:
  "(tokenEndpoint w = r # rest \<and>
    (r = TokenThrows msg \<or> r = TokenJson None description \<or> r = TokenJson (Some []) description) \<longrightarrow>
      (\<exists>w'. refreshAccessToken refreshToken w = Some w' \<and>
         storage w' ''gmail_access_token'' = None \<and>
         storage w' ''gmail_refresh_token'' = None \<and>
         googleToken w' = [] \<and>
         \<not> gs_connected (gmailStatus w') \<and> \<not> gs_loading (gmailStatus w') \<and>
         gs_error (gmailStatus w') = ''Session expired. Please reconnect to Gmail.'' \<and>
         gs_lastSync (gmailStatus w') = None \<and>
         network w' = network w @ [TokenRefresh refreshToken])) \<and>
   (storage w ''gmail_refresh_token'' = Some refreshToken \<and> refreshToken \<noteq> [] \<and>
    tokenEndpoint w = r # rest \<and>
    (r = TokenThrows msg \<or> r = TokenJson None description \<or> r = TokenJson (Some []) description) \<longrightarrow>
      (\<exists>w'. handle401Error w = Some w' \<and>
         storage w' ''gmail_access_token'' = None \<and>
         storage w' ''gmail_refresh_token'' = None \<and>
         googleToken w' = [] \<and> \<not> gs_connected (gmailStatus w')))"
  by (auto simp: refreshAccessToken.simps handle401Error.simps refreshFailed_def
      setGmailStatus_def Let_def)

text \<open>
  A token endpoint that answers with an error description and no access token.
\<close>

theorem refreshAccessToken_rejected_witness:
  "(\<exists>w'. refreshAccessToken ''ref''
            (worldWith [] [TokenJson None (Some ''Token has been expired or revoked.'')]) = Some w' \<and>
      storage w' ''gmail_access_token'' = None \<and> storage w' ''gmail_refresh_token'' = None \<and>
      googleToken w' = [] \<and> \<not> gs_connected (gmailStatus w')) \<and>
   (\<exists>w'. handle401Error
            (worldWith [] [TokenJson None (Some ''Token has been expired or revoked.'')]) = Some w' \<and>
      storage w' ''gmail_access_token'' = None \<and> storage w' ''gmail_refresh_token'' = None \<and>
      googleToken w' = [] \<and> \<not> gs_connected (gmailStatus w'))"
proof -
  let ?w = "worldWith [] [TokenJson None (Some ''Token has been expired or revoked.'')]"
  have 1: "tokenEndpoint ?w = TokenJson None (Some ''Token has been expired or revoked.'') # []"
    by (simp add: example_defs)
  have 2: "storage ?w ''gmail_refresh_token'' = Some ''ref'' \<and> ''ref'' \<noteq> []"
    by (simp add: example_defs)
  have 3: "storage ?w ''gmail_access_token'' = Some ''tok'' \<and> gs_connected (gmailStatus ?w)"
    by (simp add: example_defs)
  from refreshAccessToken_rejected[of ?w "TokenJson None (Some ''Token has been expired or revoked.'')"
      "[]" "[]" "Some ''Token has been expired or revoked.''" "''ref''"] 1 2
  show ?thesis by blast
qed

section \<open>Reply drafts\<close>

lemma syncOnly_same:
  "replyDrafts w' = replyDrafts w \<Longrightarrow> network w' = network w @ xs \<Longrightarrow>
   list_all isSyncRequest xs \<Longrightarrow> syncOnly w w'"
  by (auto simp: syncOnly_def)

lemma syncOnly_step:
  "syncOnly w1 w' \<Longrightarrow> replyDrafts w1 = replyDrafts w \<Longrightarrow> network w1 = network w @ xs \<Longrightarrow>
   list_all isSyncRequest xs \<Longrightarrow> syncOnly w w'"
  by (auto simp: syncOnly_def)

lemma getMessages_sync: "list_all isSyncRequest (map (GetMessage t) ids)"
  by (induction ids) simp_all

lemma sync_frame:
  "(\<forall>w'. fetchEmails accessToken w = Some w' \<longrightarrow> syncOnly w w')"
  "(\<forall>w'. handle401Error w = Some w' \<longrightarrow> syncOnly w w')"
  "(\<forall>w'. refreshAccessToken refreshToken w = Some w' \<longrightarrow> syncOnly w w')"
proof (induction accessToken w and w and refreshToken w
    rule: fetchEmails_handle401Error_refreshAccessToken.induct)
  case (1 accessToken w)
  show ?case
  proof (intro allI impI)
    fix w'
    assume r: "fetchEmails accessToken w = Some w'"
    let ?token = "orElse accessToken (googleToken w)"
    show "syncOnly w w'"
    proof (cases "?token = []")
      case True
      with r have "w' = setGmailStatus (\<lambda>prev. prev\<lparr>gs_error := ''Connect Gmail first.''\<rparr>) w"
        by (simp add: fetchEmails.simps Let_def)
      then show ?thesis by (intro syncOnly_same[of _ _ "[]"]) simp_all
    next
      case nonempty: False
      show ?thesis
      proof (cases "inbox w")
        case Nil
        with r nonempty show ?thesis by (simp add: fetchEmails.simps Let_def)
      next
        case (Cons c rest)
        let ?w1 = "setGmailStatus (\<lambda>prev. prev\<lparr>gs_loading := True, gs_error := []\<rparr>)
                     (w\<lparr>inbox := rest, network := network w @ [ListMessages ?token]\<rparr>)"
        have w1: "replyDrafts ?w1 = replyDrafts w" "network ?w1 = network w @ [ListMessages ?token]"
          "list_all isSyncRequest [ListMessages ?token]"
          by simp_all
        show ?thesis
        proof (cases "listing c")
          case (Rejected msg)
          with r nonempty Cons have "w' = fetchFailed msg ?w1"
            by (simp add: fetchEmails.simps Let_def)
          then show ?thesis
            by (intro syncOnly_same[of _ _ "[ListMessages ?token]"]) simp_all
        next
          case (NotOk status errMessage)
          show ?thesis
          proof (cases "status = 401")
            case True
            with r nonempty Cons NotOk have h: "handle401Error ?w1 = Some w'"
              by (simp add: fetchEmails.simps Let_def)
            from "1.IH"[OF refl nonempty Cons refl NotOk True] h
            have "syncOnly ?w1 w'" by blast
            then show ?thesis by (rule syncOnly_step) (rule w1)+
          next
            case False
            with r nonempty Cons NotOk
            have "w' = fetchFailed (orDefault errMessage ''Unable to load inbox.'') ?w1"
              by (simp add: fetchEmails.simps Let_def)
            then show ?thesis
              by (intro syncOnly_same[of _ _ "[ListMessages ?token]"]) simp_all
          qed
        next
          case (Ok messageIds)
          show ?thesis
          proof (cases "messageIds = []")
            case True
            with r nonempty Cons Ok
            have "replyDrafts w' = replyDrafts w \<and> network w' = network w @ [ListMessages ?token]"
              by (auto simp: fetchEmails.simps Let_def)
            then show ?thesis
              by (intro syncOnly_same[of _ _ "[ListMessages ?token]"]) simp_all
          next
            case False
            let ?xs = "ListMessages ?token # map (GetMessage ?token) messageIds"
            from r nonempty Cons Ok False
            have "replyDrafts w' = replyDrafts w \<and> network w' = network w @ ?xs"
              by (auto simp: fetchEmails.simps Let_def split: sum.splits)
            then show ?thesis
              by (intro syncOnly_same[of _ _ ?xs]) (simp_all add: getMessages_sync)
          qed
        qed
      qed
    qed
  qed
next
  case (2 w)
  show ?case
  proof (intro allI impI)
    fix w'
    assume r: "handle401Error w = Some w'"
    let ?w1 = "w\<lparr>googleToken := [], storage := (storage w)(''gmail_access_token'' := None)\<rparr>"
    show "syncOnly w w'"
    proof (cases "storage ?w1 ''gmail_refresh_token''")
      case None
      with r have "replyDrafts w' = replyDrafts w \<and> network w' = network w"
        by (auto simp: handle401Error.simps Let_def)
      then show ?thesis by (intro syncOnly_same[of _ _ "[]"]) simp_all
    next
      case (Some refreshToken)
      show ?thesis
      proof (cases "refreshToken = []")
        case True
        with r Some have "replyDrafts w' = replyDrafts w \<and> network w' = network w"
          by (auto simp: handle401Error.simps Let_def)
        then show ?thesis by (intro syncOnly_same[of _ _ "[]"]) simp_all
      next
        case False
        with r Some have h: "refreshAccessToken refreshToken ?w1 = Some w'"
          by (simp add: handle401Error.simps Let_def)
        from "2.IH"[OF refl Some False] h have "syncOnly ?w1 w'" by blast
        then show ?thesis by (rule syncOnly_step[of _ _ _ "[]"]) simp_all
      qed
    qed
  qed
next
  case (3 refreshToken w)
  show ?case
  proof (intro allI impI)
    fix w'
    assume r: "refreshAccessToken refreshToken w = Some w'"
    show "syncOnly w w'"
    proof (cases "tokenEndpoint w")
      case Nil
      with r show ?thesis by (simp add: refreshAccessToken.simps)
    next
      case (Cons t rest)
      let ?w1 = "w\<lparr>tokenEndpoint := rest, network := network w @ [TokenRefresh refreshToken]\<rparr>"
      have failed: "syncOnly w (refreshFailed ?w1)"
        by (intro syncOnly_same[of _ _ "[TokenRefresh refreshToken]"]) simp_all
      show ?thesis
      proof (cases t)
        case (TokenThrows msg)
        with r Cons failed show ?thesis by (auto simp: refreshAccessToken.simps Let_def)
      next
        case (TokenJson access_token error_description)
        show ?thesis
        proof (cases access_token)
          case None
          with r Cons TokenJson failed show ?thesis
            by (auto simp: refreshAccessToken.simps Let_def)
        next
          case (Some newToken)
          show ?thesis
          proof (cases "newToken = []")
            case True
            with r Cons TokenJson Some failed show ?thesis
              by (auto simp: refreshAccessToken.simps Let_def)
          next
            case False
            let ?w2 = "setGmailStatus (\<lambda>prev. prev\<lparr>gs_error := [], gs_connected := True\<rparr>)
                         (?w1\<lparr>googleToken := newToken,
                              storage := (storage ?w1)(''gmail_access_token'' \<mapsto> newToken)\<rparr>)"
            from r Cons TokenJson Some False have h: "fetchEmails newToken ?w2 = Some w'"
              by (simp add: refreshAccessToken.simps Let_def)
            from "3.IH"[OF Cons refl TokenJson Some False] h have "syncOnly ?w2 w'" by blast
            then show ?thesis
              by (rule syncOnly_step[of _ _ _ "[TokenRefresh refreshToken]"]) simp_all
          qed
        qed
      qed
    qed
  qed
qed

lemma trim_blank: "trim s = [] \<longleftrightarrow> (\<forall>c \<in> set s. isWhiteSpace c)"
proof
  assume t: "trim s = []"
  show "\<forall>c \<in> set s. isWhiteSpace c"
  proof (rule ccontr)
    assume "\<not> (\<forall>c \<in> set s. isWhiteSpace c)"
    then have d: "dropWhile isWhiteSpace s \<noteq> []" by (simp add: dropWhile_eq_Nil_conv)
    then have "\<not> isWhiteSpace (hd (dropWhile isWhiteSpace s))" by (rule hd_dropWhile)
    with d have "\<not> (\<forall>c \<in> set (rev (dropWhile isWhiteSpace s)). isWhiteSpace c)"
      by (metis hd_in_set set_rev)
    then have "dropWhile isWhiteSpace (rev (dropWhile isWhiteSpace s)) \<noteq> []"
      by (simp add: dropWhile_eq_Nil_conv)
    with t show False by (simp add: trim_def)
  qed
next
  assume "\<forall>c \<in> set s. isWhiteSpace c"
  then have d: "dropWhile isWhiteSpace s = []" by simp
  show "trim s = []" unfolding trim_def d by simp
qed

lemma patchReplyDraft_fields [simp]:
  "network (patchReplyDraft i f w) = network w"
  "replyDrafts (patchReplyDraft i f w) i = Some (f (draftOf w i))"
  "draftOf (patchReplyDraft i f w) i = f (draftOf w i)"
  "clock (patchReplyDraft i f w) = clock w"
  "googleToken (patchReplyDraft i f w) = googleToken w"
  "storage (patchReplyDraft i f w) = storage w"
  "inbox (patchReplyDraft i f w) = inbox w"
  by (simp_all add: patchReplyDraft_def draftOf_def Let_def)

lemma patchReplyDraft_frame:
  "patchReplyDraft i f w = w\<lparr>replyDrafts := replyDrafts (patchReplyDraft i f w)\<rparr>"
  by (simp add: patchReplyDraft_def Let_def)

lemma saveFailed_fields [simp]:
  "network (saveFailed i err w) = network w"
  "network (sendFailed i err w) = network w"
  by (simp_all add: saveFailed_def sendFailed_def interpretGmailError_def)

text \<open>
  Claim C6.  When the content of the draft is empty or white space only, \<^verbatim>\<open>saveDraftEdits\<close>
  and \<^verbatim>\<open>sendReply\<close> both return with the empty-draft message as the error of the
  record, make no network call, and change nothing else: the content, the draft id and
  the time of the last save of the record are as before.
\<close>

theorem blank_draft_no_request:
  "(\<forall>c \<in> set (rd_content (draftOf w (email_id email))). isWhiteSpace c) \<longrightarrow>
     (\<exists>ws wd.
        saveDraftEdits email reply w = Some ws \<and> sendReply email sent w = Some wd \<and>
        network ws = network w \<and> network wd = network w \<and>
        ws = w\<lparr>replyDrafts := replyDrafts ws\<rparr> \<and> wd = w\<lparr>replyDrafts := replyDrafts wd\<rparr> \<and>
        rd_error (draftOf ws (email_id email)) = Some ''Draft is empty. Add text before saving.'' \<and>
        rd_error (draftOf wd (email_id email)) = Some ''Draft is empty. Add text before sending.'' \<and>
        rd_content (draftOf ws (email_id email)) = rd_content (draftOf w (email_id email)) \<and>
        rd_draftId (draftOf ws (email_id email)) = rd_draftId (draftOf w (email_id email)) \<and>
        rd_savedAt (draftOf ws (email_id email)) = rd_savedAt (draftOf w (email_id email)) \<and>
        rd_content (draftOf wd (email_id email)) = rd_content (draftOf w (email_id email)) \<and>
        rd_draftId (draftOf wd (email_id email)) = rd_draftId (draftOf w (email_id email)) \<and>
        rd_savedAt (draftOf wd (email_id email)) = rd_savedAt (draftOf w (email_id email)))"
proof
  let ?i = "email_id email"
  assume "\<forall>c \<in> set (rd_content (draftOf w ?i)). isWhiteSpace c"
  then have "trim (rd_content (draftOf w ?i)) = []" by (simp add: trim_blank)
  then have b: "draftBody (replyDrafts w ?i) = []"
    by (simp add: draftBody_def draftOf_def emptyDraft_def split: option.splits)
  let ?ws = "patchReplyDraft ?i (\<lambda>r. r\<lparr>rd_error := Some ''Draft is empty. Add text before saving.''\<rparr>) w"
  let ?wd = "patchReplyDraft ?i (\<lambda>r. r\<lparr>rd_error := Some ''Draft is empty. Add text before sending.''\<rparr>) w"
  from b have s: "saveDraftEdits email reply w = Some ?ws"
    by (simp add: saveDraftEdits_def Let_def)
  from b have d: "sendReply email sent w = Some ?wd"
    by (simp add: sendReply_def Let_def)
  have fs: "?ws = w\<lparr>replyDrafts := replyDrafts ?ws\<rparr>" by (rule patchReplyDraft_frame)
  have fd: "?wd = w\<lparr>replyDrafts := replyDrafts ?wd\<rparr>" by (rule patchReplyDraft_frame)
  show "\<exists>ws wd.
        saveDraftEdits email reply w = Some ws \<and> sendReply email sent w = Some wd \<and>
        network ws = network w \<and> network wd = network w \<and>
        ws = w\<lparr>replyDrafts := replyDrafts ws\<rparr> \<and> wd = w\<lparr>replyDrafts := replyDrafts wd\<rparr> \<and>
        rd_error (draftOf ws (email_id email)) = Some ''Draft is empty. Add text before saving.'' \<and>
        rd_error (draftOf wd (email_id email)) = Some ''Draft is empty. Add text before sending.'' \<and>
        rd_content (draftOf ws (email_id email)) = rd_content (draftOf w (email_id email)) \<and>
        rd_draftId (draftOf ws (email_id email)) = rd_draftId (draftOf w (email_id email)) \<and>
        rd_savedAt (draftOf ws (email_id email)) = rd_savedAt (draftOf w (email_id email)) \<and>
        rd_content (draftOf wd (email_id email)) = rd_content (draftOf w (email_id email)) \<and>
        rd_draftId (draftOf wd (email_id email)) = rd_draftId (draftOf w (email_id email)) \<and>
        rd_savedAt (draftOf wd (email_id email)) = rd_savedAt (draftOf w (email_id email))"
    apply (rule exI[of _ ?ws], rule exI[of _ ?wd])
    using s d fs fd apply simp
    done
qed


lemma list_all_sync_weaken: "list_all isSyncRequest ext \<Longrightarrow> list_all (\<lambda>q. isSyncRequest q \<or> P q) ext"
  by (induction ext) simp_all

lemma saveDraftEdits_trace:
  assumes r: "replyDrafts w (email_id email) = Some r"
    and s: "saveDraftEdits email reply w = Some w'"
  shows "\<exists>ext. network w' = network w @ ext \<and>
           list_all (\<lambda>q. isSyncRequest q \<or>
                         (\<exists>t m. q = draftRequest (Some r) t m (threadId email))) ext"
proof -
  let ?i = "email_id email"
  let ?P = "\<lambda>q. isSyncRequest q \<or> (\<exists>t m. q = draftRequest (Some r) t m (threadId email))"
  let ?w1 = "patchReplyDraft ?i (\<lambda>r. r\<lparr>rd_saving := Some True, rd_notice := Some []\<rparr>) w"
  have b: "draftBody (replyDrafts w ?i) = trim (rd_content r)"
    using r by (simp add: draftBody_def)
  have done0: "network w' = network w \<Longrightarrow> ?thesis"
    by (intro exI[of _ "[]"]) simp
  show ?thesis
  proof (cases "trim (rd_content r) = []")
    case True
    with s b show ?thesis by (intro done0) (auto simp: saveDraftEdits_def Let_def)
  next
    case body: False
    show ?thesis
    proof (cases "googleToken w = []")
      case True
      with s b body show ?thesis by (intro done0) (auto simp: saveDraftEdits_def Let_def)
    next
      case token: False
      show ?thesis
      proof (cases "getReplyEnvelope email")
        case (Inl msg)
        with s b body token show ?thesis
          by (intro done0) (auto simp: saveDraftEdits_def Let_def)
      next
        case (Inr env)
        obtain recipient subj where env: "env = (recipient, subj)" by (cases env)
        let ?q = "draftRequest (Some r) (googleToken w)
                    (buildReplyMessage recipient subj (trim (rd_content r)) (messageId email))
                    (threadId email)"
        let ?w2 = "?w1\<lparr>network := network ?w1 @ [?q]\<rparr>"
        have q: "?P ?q" by blast
        have one: "network w' = network w @ [?q] \<Longrightarrow> ?thesis"
          using q by (intro exI[of _ "[?q]"]) simp
        show ?thesis
        proof (cases reply)
          case (Rejected msg)
          with s b body token Inr env r show ?thesis
            by (intro one) (auto simp: saveDraftEdits_def Let_def)
        next
          case (NotOk status errMessage)
          show ?thesis
          proof (cases "status = 401")
            case False
            with s b body token Inr env r NotOk show ?thesis
              by (intro one) (auto simp: saveDraftEdits_def Let_def)
          next
            case True
            with s b body token Inr env r NotOk
            obtain w3 where h: "handle401Error ?w2 = Some w3"
              and w': "w' = patchReplyDraft ?i
                         (\<lambda>r. r\<lparr>rd_saving := Some False, rd_error := Some ''Authentication expired''\<rparr>) w3"
              by (auto simp: saveDraftEdits_def Let_def split: option.splits)
            from sync_frame(2)[of ?w2] h have "syncOnly ?w2 w3" by blast
            then obtain ext where e: "network w3 = network ?w2 @ ext" "list_all isSyncRequest ext"
              by (auto simp: syncOnly_def)
            from e w' have "network w' = network w @ (?q # ext)" by simp
            moreover from e q have "list_all ?P (?q # ext)"
              by (simp add: list_all_sync_weaken)
            ultimately show ?thesis by blast
          qed
        next
          case (Ok data)
          with s b body token Inr env r show ?thesis
            by (intro one) (auto simp: saveDraftEdits_def Let_def)
        qed
      qed
    qed
  qed
qed


lemma draftRequest_update:
  "rd_draftId r = Some d \<Longrightarrow> d \<noteq> [] \<Longrightarrow> draftRequest (Some r) t m th = UpdateDraft t d m th"
  by (simp add: draftRequest_def)

lemma draftRequest_create:
  "rd_draftId r = None \<or> rd_draftId r = Some [] \<Longrightarrow>
   draftRequest (Some r) t m th = CreateDraft t m th"
  by (auto simp: draftRequest_def)

lemma saveDraftEdits_updates_only:
  assumes "replyDrafts w (email_id email) = Some r" "rd_draftId r = Some d" "d \<noteq> []"
    "saveDraftEdits email reply w = Some w'"
  shows "\<exists>ext. network w' = network w @ ext \<and>
           list_all (\<lambda>q. isSyncRequest q \<or> isUpdateOf d q) ext"
proof -
  from saveDraftEdits_trace[OF assms(1) assms(4)]
  obtain ext where e: "network w' = network w @ ext"
    "list_all (\<lambda>q. isSyncRequest q \<or>
                 (\<exists>t m. q = draftRequest (Some r) t m (threadId email))) ext"
    by blast
  have "\<And>q. isSyncRequest q \<or> (\<exists>t m. q = draftRequest (Some r) t m (threadId email))
           \<Longrightarrow> isSyncRequest q \<or> isUpdateOf d q"
    using assms(2,3) by (auto simp: draftRequest_update)
  with e(2) have "list_all (\<lambda>q. isSyncRequest q \<or> isUpdateOf d q) ext"
    unfolding list_all_iff by blast
  with e(1) show ?thesis by blast
qed

lemma saveDraftEdits_ok:
  assumes "replyDrafts w (email_id email) = Some r" "trim (rd_content r) \<noteq> []"
    "googleToken w \<noteq> []" "getReplyEnvelope email = Inr (recipient, subj)"
  shows "saveDraftEdits email (Ok (i, m)) w =
     Some (patchReplyDraft (email_id email)
             (\<lambda>r. r\<lparr>rd_saving := Some False, rd_dirty := Some False,
                     rd_draftId := orElseOpt i m, rd_savedAt := Some (clock w),
                     rd_notice := Some ''Draft saved to Gmail.'', rd_error := Some []\<rparr>)
             ((patchReplyDraft (email_id email)
                 (\<lambda>r. r\<lparr>rd_saving := Some True, rd_notice := Some []\<rparr>) w)
                \<lparr>network := network w @
                   [draftRequest (Some r) (googleToken w)
                      (buildReplyMessage recipient subj (trim (rd_content r)) (messageId email))
                      (threadId email)]\<rparr>))"
  using assms by (simp add: saveDraftEdits_def Let_def draftBody_def)

lemma draftOf_network_update [simp]: "draftOf (w\<lparr>network := n\<rparr>) i = draftOf w i"
  by (simp add: draftOf_def)

lemma draftOf_Some: "replyDrafts w i = Some r \<Longrightarrow> draftOf w i = r"
  by (simp add: draftOf_def)

text \<open>
  Claim C5.  For a record with a draft id \<open>d\<close>, whatever the provider answers, the
  requests of \<^verbatim>\<open>saveDraftEdits\<close> are updates of \<open>d\<close> and requests of the credential
  recovery: no draft is created.  When the save goes through, the one request is the
  update of \<open>d\<close> and the record holds the id of the answer.  For a record without a
  draft id, the one request creates a draft, the record holds the id the provider
  assigned, and every later save makes no request on drafts but updates of that id.
\<close>

theorem saveDraftEdits_reuses_draft_id:
  "(replyDrafts w (email_id email) = Some r \<and> rd_draftId r = Some d \<and> d \<noteq> [] \<and>
    saveDraftEdits email reply w = Some w' \<longrightarrow>
      (\<exists>ext. network w' = network w @ ext \<and>
         list_all (\<lambda>q. isSyncRequest q \<or> isUpdateOf d q) ext)) \<and>
   (replyDrafts w (email_id email) = Some r \<and> rd_draftId r = Some d \<and> d \<noteq> [] \<and>
    trim (rd_content r) \<noteq> [] \<and> googleToken w \<noteq> [] \<and>
    getReplyEnvelope email = Inr (recipient, subj) \<and> i \<noteq> [] \<longrightarrow>
      (\<exists>w2. saveDraftEdits email (Ok (Some i, m)) w = Some w2 \<and>
         network w2 = network w @
           [UpdateDraft (googleToken w) d
              (buildReplyMessage recipient subj (trim (rd_content r)) (messageId email))
              (threadId email)] \<and>
         rd_draftId (draftOf w2 (email_id email)) = Some i \<and>
         rd_savedAt (draftOf w2 (email_id email)) = Some (clock w) \<and>
         rd_content (draftOf w2 (email_id email)) = rd_content r)) \<and>
   (replyDrafts w (email_id email) = Some r \<and> (rd_draftId r = None \<or> rd_draftId r = Some []) \<and>
    trim (rd_content r) \<noteq> [] \<and> googleToken w \<noteq> [] \<and>
    getReplyEnvelope email = Inr (recipient, subj) \<and> i \<noteq> [] \<longrightarrow>
      (\<exists>w2. saveDraftEdits email (Ok (Some i, m)) w = Some w2 \<and>
         network w2 = network w @
           [CreateDraft (googleToken w)
              (buildReplyMessage recipient subj (trim (rd_content r)) (messageId email))
              (threadId email)] \<and>
         rd_draftId (draftOf w2 (email_id email)) = Some i \<and>
         rd_savedAt (draftOf w2 (email_id email)) = Some (clock w) \<and>
         rd_content (draftOf w2 (email_id email)) = rd_content r \<and>
         (\<forall>reply2 w3. saveDraftEdits email reply2 w2 = Some w3 \<longrightarrow>
            (\<exists>ext. network w3 = network w2 @ ext \<and>
               list_all (\<lambda>q. isSyncRequest q \<or> isUpdateOf i q) ext))))"
proof (intro conjI impI)
  assume "replyDrafts w (email_id email) = Some r \<and> rd_draftId r = Some d \<and> d \<noteq> [] \<and>
    saveDraftEdits email reply w = Some w'"
  then show "\<exists>ext. network w' = network w @ ext \<and>
         list_all (\<lambda>q. isSyncRequest q \<or> isUpdateOf d q) ext"
    using saveDraftEdits_updates_only[of w email r d reply w'] by blast
next
  assume a: "replyDrafts w (email_id email) = Some r \<and> rd_draftId r = Some d \<and> d \<noteq> [] \<and>
    trim (rd_content r) \<noteq> [] \<and> googleToken w \<noteq> [] \<and>
    getReplyEnvelope email = Inr (recipient, subj) \<and> i \<noteq> []"
  then have "saveDraftEdits email (Ok (Some i, m)) w = Some
     (patchReplyDraft (email_id email)
             (\<lambda>r. r\<lparr>rd_saving := Some False, rd_dirty := Some False,
                     rd_draftId := orElseOpt (Some i) m, rd_savedAt := Some (clock w),
                     rd_notice := Some ''Draft saved to Gmail.'', rd_error := Some []\<rparr>)
             ((patchReplyDraft (email_id email)
                 (\<lambda>r. r\<lparr>rd_saving := Some True, rd_notice := Some []\<rparr>) w)
                \<lparr>network := network w @
                   [draftRequest (Some r) (googleToken w)
                      (buildReplyMessage recipient subj (trim (rd_content r)) (messageId email))
                      (threadId email)]\<rparr>))"
    by (intro saveDraftEdits_ok) simp_all
  with a show "\<exists>w2. saveDraftEdits email (Ok (Some i, m)) w = Some w2 \<and>
         network w2 = network w @
           [UpdateDraft (googleToken w) d
              (buildReplyMessage recipient subj (trim (rd_content r)) (messageId email))
              (threadId email)] \<and>
         rd_draftId (draftOf w2 (email_id email)) = Some i \<and>
         rd_savedAt (draftOf w2 (email_id email)) = Some (clock w) \<and>
         rd_content (draftOf w2 (email_id email)) = rd_content r"
    by (simp add: draftRequest_update orElseOpt_def draftOf_Some)
next
  assume a: "replyDrafts w (email_id email) = Some r \<and> (rd_draftId r = None \<or> rd_draftId r = Some []) \<and>
    trim (rd_content r) \<noteq> [] \<and> googleToken w \<noteq> [] \<and>
    getReplyEnvelope email = Inr (recipient, subj) \<and> i \<noteq> []"
  let ?w2 = "patchReplyDraft (email_id email)
             (\<lambda>r. r\<lparr>rd_saving := Some False, rd_dirty := Some False,
                     rd_draftId := orElseOpt (Some i) m, rd_savedAt := Some (clock w),
                     rd_notice := Some ''Draft saved to Gmail.'', rd_error := Some []\<rparr>)
             ((patchReplyDraft (email_id email)
                 (\<lambda>r. r\<lparr>rd_saving := Some True, rd_notice := Some []\<rparr>) w)
                \<lparr>network := network w @
                   [draftRequest (Some r) (googleToken w)
                      (buildReplyMessage recipient subj (trim (rd_content r)) (messageId email))
                      (threadId email)]\<rparr>)"
  from a have s: "saveDraftEdits email (Ok (Some i, m)) w = Some ?w2"
    by (intro saveDraftEdits_ok) simp_all
  from a have c: "draftRequest (Some r) (googleToken w)
                      (buildReplyMessage recipient subj (trim (rd_content r)) (messageId email))
                      (threadId email)
      = CreateDraft (googleToken w)
              (buildReplyMessage recipient subj (trim (rd_content r)) (messageId email))
              (threadId email)"
    by (intro draftRequest_create) simp
  from a have n: "network ?w2 = network w @
           [CreateDraft (googleToken w)
              (buildReplyMessage recipient subj (trim (rd_content r)) (messageId email))
              (threadId email)]"
    by (simp add: c)
  from a have d: "rd_draftId (draftOf ?w2 (email_id email)) = Some i \<and>
         rd_savedAt (draftOf ?w2 (email_id email)) = Some (clock w) \<and>
         rd_content (draftOf ?w2 (email_id email)) = rd_content r"
    by (simp add: orElseOpt_def draftOf_Some)
  have r2: "replyDrafts ?w2 (email_id email) = Some (draftOf ?w2 (email_id email))"
    by (simp add: draftOf_def patchReplyDraft_def Let_def)
  have f: "\<forall>reply2 w3. saveDraftEdits email reply2 ?w2 = Some w3 \<longrightarrow>
            (\<exists>ext. network w3 = network ?w2 @ ext \<and>
               list_all (\<lambda>q. isSyncRequest q \<or> isUpdateOf i q) ext)"
  proof (intro allI impI)
    fix reply2 w3
    assume "saveDraftEdits email reply2 ?w2 = Some w3"
    with saveDraftEdits_updates_only[OF r2, of i reply2 w3] d a
    show "\<exists>ext. network w3 = network ?w2 @ ext \<and>
               list_all (\<lambda>q. isSyncRequest q \<or> isUpdateOf i q) ext"
      by blast
  qed
  from s n d f show "\<exists>w2. saveDraftEdits email (Ok (Some i, m)) w = Some w2 \<and>
         network w2 = network w @
           [CreateDraft (googleToken w)
              (buildReplyMessage recipient subj (trim (rd_content r)) (messageId email))
              (threadId email)] \<and>
         rd_draftId (draftOf w2 (email_id email)) = Some i \<and>
         rd_savedAt (draftOf w2 (email_id email)) = Some (clock w) \<and>
         rd_content (draftOf w2 (email_id email)) = rd_content r \<and>
         (\<forall>reply2 w3. saveDraftEdits email reply2 w2 = Some w3 \<longrightarrow>
            (\<exists>ext. network w3 = network w2 @ ext \<and>
               list_all (\<lambda>q. isSyncRequest q \<or> isUpdateOf i q) ext))"
    by (intro exI[of _ ?w2]) blast
qed


lemma mailA_envelope: "getReplyEnvelope mailA = Inr (''jane@example.com'', ''Re: Status'')"
  by code_simp

lemma mailA_fields:
  "email_id mailA = ''a''" "messageId mailA = ''<abc@mail>''" "threadId mailA = Some ''t1''"
  by (simp_all add: mailA_def exampleEmail_def)

lemma draftWorld_fields:
  "replyDrafts (draftWorld txt d) ''a'' =
     Some (emptyDraft\<lparr>rd_content := txt, rd_draftId := d,
                       rd_savedAt := Some ''2023-12-31T00:00:00.000Z''\<rparr>)"
  "googleToken (draftWorld txt d) = ''tok''"
  "network (draftWorld txt d) = []"
  "clock (draftWorld txt d) = ''2024-01-01T00:00:00.000Z''"
  by (simp_all add: draftWorld_def exampleWorld_def)

lemma trim_Thanks: "trim ''Thanks!'' = ''Thanks!''"
  by code_simp

text \<open>
  A draft of two spaces that was saved before under the id \<open>d1\<close>.
\<close>

theorem blank_draft_no_request_witness:
  "\<exists>ws wd. saveDraftEdits mailA (Ok (Some ''d2'', None)) (draftWorld ''  '' (Some ''d1'')) = Some ws \<and>
      sendReply mailA (Ok ()) (draftWorld ''  '' (Some ''d1'')) = Some wd \<and>
      network ws = [] \<and> network wd = [] \<and>
      rd_error (draftOf ws ''a'') = Some ''Draft is empty. Add text before saving.'' \<and>
      rd_error (draftOf wd ''a'') = Some ''Draft is empty. Add text before sending.'' \<and>
      rd_content (draftOf ws ''a'') = ''  '' \<and> rd_draftId (draftOf ws ''a'') = Some ''d1'' \<and>
      rd_savedAt (draftOf ws ''a'') = Some ''2023-12-31T00:00:00.000Z'' \<and>
      rd_content (draftOf wd ''a'') = ''  '' \<and> rd_draftId (draftOf wd ''a'') = Some ''d1'' \<and>
      rd_savedAt (draftOf wd ''a'') = Some ''2023-12-31T00:00:00.000Z''"
proof -
  let ?w = "draftWorld ''  '' (Some ''d1'')"
  have d: "draftOf ?w ''a'' = emptyDraft\<lparr>rd_content := ''  '', rd_draftId := Some ''d1'',
                       rd_savedAt := Some ''2023-12-31T00:00:00.000Z''\<rparr>"
    by (simp add: draftOf_def draftWorld_fields)
  have 1: "\<forall>c \<in> set (rd_content (draftOf ?w (email_id mailA))). isWhiteSpace c"
    by (simp add: mailA_fields d isWhiteSpace_def)
  from blank_draft_no_request[of ?w mailA "Ok (Some ''d2'', None)" "Ok ()", THEN mp, OF 1]
  obtain ws wd where s: "saveDraftEdits mailA (Ok (Some ''d2'', None)) ?w = Some ws"
    "sendReply mailA (Ok ()) ?w = Some wd"
    and n: "network ws = network ?w" "network wd = network ?w"
    and e: "rd_error (draftOf ws (email_id mailA)) = Some ''Draft is empty. Add text before saving.''"
      "rd_error (draftOf wd (email_id mailA)) = Some ''Draft is empty. Add text before sending.''"
    and k: "rd_content (draftOf ws (email_id mailA)) = rd_content (draftOf ?w (email_id mailA))"
      "rd_draftId (draftOf ws (email_id mailA)) = rd_draftId (draftOf ?w (email_id mailA))"
      "rd_savedAt (draftOf ws (email_id mailA)) = rd_savedAt (draftOf ?w (email_id mailA))"
      "rd_content (draftOf wd (email_id mailA)) = rd_content (draftOf ?w (email_id mailA))"
      "rd_draftId (draftOf wd (email_id mailA)) = rd_draftId (draftOf ?w (email_id mailA))"
      "rd_savedAt (draftOf wd (email_id mailA)) = rd_savedAt (draftOf ?w (email_id mailA))"
    by blast
  from s n e k show ?thesis
    by (intro exI[of _ ws] exI[of _ wd]) (simp add: mailA_fields d draftWorld_fields)
qed

text \<open>
  A saved draft \<open>d1\<close> that is saved again, and a draft without an id whose first save is
  answered with the id \<open>d9\<close>.
\<close>

theorem saveDraftEdits_reuses_draft_id_witness:
  "(\<exists>w2. saveDraftEdits mailA (Ok (Some ''d1'', None)) (draftWorld ''Thanks!'' (Some ''d1'')) = Some w2 \<and>
      network w2 = [UpdateDraft ''tok'' ''d1''
                      (buildReplyMessage ''jane@example.com'' ''Re: Status'' ''Thanks!'' ''<abc@mail>'')
                      (Some ''t1'')] \<and>
      rd_draftId (draftOf w2 ''a'') = Some ''d1'' \<and>
      list_all (\<lambda>q. isSyncRequest q \<or> isUpdateOf ''d1'' q) (network w2)) \<and>
   (\<exists>w2. saveDraftEdits mailA (Ok (Some ''d9'', None)) (draftWorld ''Thanks!'' None) = Some w2 \<and>
      network w2 = [CreateDraft ''tok''
                      (buildReplyMessage ''jane@example.com'' ''Re: Status'' ''Thanks!'' ''<abc@mail>'')
                      (Some ''t1'')] \<and>
      rd_draftId (draftOf w2 ''a'') = Some ''d9'')"
proof -
  let ?u = "draftWorld ''Thanks!'' (Some ''d1'')"
  let ?r = "emptyDraft\<lparr>rd_content := ''Thanks!'', rd_draftId := Some ''d1'',
                       rd_savedAt := Some ''2023-12-31T00:00:00.000Z''\<rparr>"
  let ?c = "draftWorld ''Thanks!'' None"
  let ?s = "emptyDraft\<lparr>rd_content := ''Thanks!'', rd_draftId := None,
                       rd_savedAt := Some ''2023-12-31T00:00:00.000Z''\<rparr>"
  have 1: "replyDrafts ?u (email_id mailA) = Some ?r \<and> rd_draftId ?r = Some ''d1'' \<and> ''d1'' \<noteq> [] \<and>
    trim (rd_content ?r) \<noteq> [] \<and> googleToken ?u \<noteq> [] \<and>
    getReplyEnvelope mailA = Inr (''jane@example.com'', ''Re: Status'') \<and> ''d1'' \<noteq> []"
    by (simp add: mailA_fields draftWorld_fields mailA_envelope trim_Thanks)
  have 2: "replyDrafts ?c (email_id mailA) = Some ?s \<and> (rd_draftId ?s = None \<or> rd_draftId ?s = Some []) \<and>
    trim (rd_content ?s) \<noteq> [] \<and> googleToken ?c \<noteq> [] \<and>
    getReplyEnvelope mailA = Inr (''jane@example.com'', ''Re: Status'') \<and> ''d9'' \<noteq> []"
    by (simp add: mailA_fields draftWorld_fields mailA_envelope trim_Thanks)
  from saveDraftEdits_reuses_draft_id[of ?u mailA ?r "''d1''" "Ok (Some ''d1'', None)" ?u
      "''jane@example.com''" "''Re: Status''" "''d1''" None] 1
  obtain w2 where a: "saveDraftEdits mailA (Ok (Some ''d1'', None)) ?u = Some w2"
    and b: "network w2 = network ?u @
           [UpdateDraft (googleToken ?u) ''d1''
              (buildReplyMessage ''jane@example.com'' ''Re: Status'' (trim (rd_content ?r)) (messageId mailA))
              (threadId mailA)]"
    and c: "rd_draftId (draftOf w2 (email_id mailA)) = Some ''d1''"
    by blast
  from saveDraftEdits_reuses_draft_id[of ?u mailA ?r "''d1''" "Ok (Some ''d1'', None)" w2
      "''jane@example.com''" "''Re: Status''" "''d1''" None] 1 a
  obtain ext where e: "network w2 = network ?u @ ext"
    "list_all (\<lambda>q. isSyncRequest q \<or> isUpdateOf ''d1'' q) ext"
    by blast
  from a b c e have first: "\<exists>w2. saveDraftEdits mailA (Ok (Some ''d1'', None)) ?u = Some w2 \<and>
      network w2 = [UpdateDraft ''tok'' ''d1''
                      (buildReplyMessage ''jane@example.com'' ''Re: Status'' ''Thanks!'' ''<abc@mail>'')
                      (Some ''t1'')] \<and>
      rd_draftId (draftOf w2 ''a'') = Some ''d1'' \<and>
      list_all (\<lambda>q. isSyncRequest q \<or> isUpdateOf ''d1'' q) (network w2)"
    by (intro exI[of _ w2]) (simp add: mailA_fields draftWorld_fields trim_Thanks)
  from saveDraftEdits_reuses_draft_id[of ?c mailA ?s "''d1''" "Ok (Some ''d1'', None)" ?c
      "''jane@example.com''" "''Re: Status''" "''d9''" None] 2
  obtain w3 where a3: "saveDraftEdits mailA (Ok (Some ''d9'', None)) ?c = Some w3"
    and b3: "network w3 = network ?c @
           [CreateDraft (googleToken ?c)
              (buildReplyMessage ''jane@example.com'' ''Re: Status'' (trim (rd_content ?s)) (messageId mailA))
              (threadId mailA)]"
    and c3: "rd_draftId (draftOf w3 (email_id mailA)) = Some ''d9''"
    by blast
  from a3 b3 c3 have "\<exists>w2. saveDraftEdits mailA (Ok (Some ''d9'', None)) ?c = Some w2 \<and>
      network w2 = [CreateDraft ''tok''
                      (buildReplyMessage ''jane@example.com'' ''Re: Status'' ''Thanks!'' ''<abc@mail>'')
                      (Some ''t1'')] \<and>
      rd_draftId (draftOf w2 ''a'') = Some ''d9''"
    by (intro exI[of _ w3]) (simp add: mailA_fields draftWorld_fields trim_Thanks)
  with first show ?thesis by blast
qed

end
